theory Spec2Isabelle
  imports Main "HOL-Library.AList"
begin

section \<open>Strings and plain objects\<close>

text \<open>
  JavaScript strings are modelled as \<open>string\<close>. The three string operations the
  handler uses are \<open>toLowerCase\<close> (inside the \<open>Headers\<close> class, on ASCII header
  names), \<open>startsWith\<close> and \<open>includes\<close> (here \<open>includes_str\<close>).
\<close>

definition toLowerCase_char :: "char \<Rightarrow> char" where
  "toLowerCase_char c =
     (case map_of (zip ''ABCDEFGHIJKLMNOPQRSTUVWXYZ'' ''abcdefghijklmnopqrstuvwxyz'') c of
        None \<Rightarrow> c
      | Some l \<Rightarrow> l)"

definition toLowerCase :: "string \<Rightarrow> string" where
  "toLowerCase s = map toLowerCase_char s"

definition startsWith :: "string \<Rightarrow> string \<Rightarrow> bool" where
  "startsWith s p = (take (length p) s = p)"

fun includes_str :: "string \<Rightarrow> string \<Rightarrow> bool" where
  "includes_str [] sub = (sub = [])"
| "includes_str (c # s) sub = (startsWith (c # s) sub \<or> includes_str s sub)"

fun join :: "string list \<Rightarrow> string \<Rightarrow> string" where
  "join [] sep = []"
| "join [x] sep = x"
| "join (x # y # xs) sep = x @ sep @ join (y # xs) sep"

fun nat_toString :: "nat \<Rightarrow> string" where
  "nat_toString n =
     (if n < 10 then [''0123456789'' ! n]
      else nat_toString (n div 10) @ [''0123456789'' ! (n mod 10)])"

text \<open>\<open>cors.maxAge.toString()\<close>, for the integral values of \<open>maxAge\<close>.\<close>

definition number_toString :: "int \<Rightarrow> string" where
  "number_toString i =
     (if i < 0 then CHR ''-'' # nat_toString (nat (- i)) else nat_toString (nat i))"

text \<open>
  A plain object with string values (\<open>Record<string, string>\<close>) is an association
  list; a property is read with \<open>obj_get\<close> (the first entry of the key) and written
  with \<open>obj_set\<close>, which overwrites an existing property in place and adds a new one
  at the end. Only the properties and their values are meant: the position of an entry
  in the list is not a statement about enumeration order.
\<close>

type_synonym obj = "(string \<times> string) list"

definition obj_get :: "obj \<Rightarrow> string \<Rightarrow> string option" where
  "obj_get o1 k = map_of o1 k"

definition obj_set :: "obj \<Rightarrow> string \<Rightarrow> string \<Rightarrow> obj" where
  "obj_set o1 k v = AList.update k v o1"

text \<open>The object spread \<open>{...a, ...b}\<close>: the properties of \<open>b\<close> are written over \<open>a\<close>.\<close>

definition spread :: "obj \<Rightarrow> obj \<Rightarrow> obj" where
  "spread a b = foldl (\<lambda>acc (k, v). obj_set acc k v) a b"

text \<open>\<open>...result.headers\<close> where the property may be \<open>undefined\<close>: nothing is spread.\<close>

definition spread_opt :: "obj option \<Rightarrow> obj" where
  "spread_opt h = (case h of None \<Rightarrow> [] | Some a \<Rightarrow> spread [] a)"

section \<open>The Headers class\<close>

text \<open>
  Modelled from the spec: the class \<open>Headers\<close> of \<open>apollo-server-env\<close>, which the
  handler imports and which is not among the source files. The spec describes it as
  "an ordered, case-insensitive mapping from header name to value; supports
  get/set/iterate; constructible from an HttpEvent's raw header mapping or from another
  NormalizedHeaders instance (copy)", where "multiple raw casings may appear and must be
  treated as equivalent". Names are kept in lower case; building from a raw mapping
  appends each entry, and two raw casings of one name are combined into one value,
  separated by a comma and a space, as the Fetch standard has it. Header names and values
  are taken to be well formed: that the class refuses other strings is not modelled.
\<close>

type_synonym Headers = "(string \<times> string) list"

definition Headers_get :: "Headers \<Rightarrow> string \<Rightarrow> string option" where
  "Headers_get h name = map_of h (toLowerCase name)"

definition Headers_set :: "Headers \<Rightarrow> string \<Rightarrow> string \<Rightarrow> Headers" where
  "Headers_set h name v = AList.update (toLowerCase name) v h"

definition Headers_append :: "Headers \<Rightarrow> string \<Rightarrow> string \<Rightarrow> Headers" where
  "Headers_append h name v =
     (case Headers_get h name of
        None \<Rightarrow> h @ [(toLowerCase name, v)]
      | Some old \<Rightarrow> AList.update (toLowerCase name) (old @ '', '' @ v) h)"

definition new_Headers :: "obj \<Rightarrow> Headers" where
  "new_Headers init = foldl (\<lambda>h (k, v). Headers_append h k v) [] init"

text \<open>
  \<open>Array.from(requestCorsHeaders).reduce((headersObject, [key, value]) => ..., {})\<close>:
  the entries of a \<open>Headers\<close> written one by one into an empty object.
\<close>

definition Headers_toObject :: "Headers \<Rightarrow> obj" where
  "Headers_toObject h = foldl (\<lambda>headersObject (key, val). obj_set headersObject key val) [] h"

section \<open>Configuration, events and results\<close>

datatype StringOrArray = OneString string | StringArray "string list"

datatype Origin = OriginBoolean bool | OriginString string | OriginArray "string list"

text \<open>JavaScript truthiness of the values the handler tests.\<close>

fun truthy_StringOrArray :: "StringOrArray option \<Rightarrow> bool" where
  "truthy_StringOrArray None = False"
| "truthy_StringOrArray (Some (OneString s)) = (s \<noteq> [])"
| "truthy_StringOrArray (Some (StringArray xs)) = True"

fun truthy_Origin :: "Origin option \<Rightarrow> bool" where
  "truthy_Origin None = False"
| "truthy_Origin (Some (OriginBoolean b)) = b"
| "truthy_Origin (Some (OriginString s)) = (s \<noteq> [])"
| "truthy_Origin (Some (OriginArray xs)) = True"

fun truthy_string :: "string option \<Rightarrow> bool" where
  "truthy_string None = False"
| "truthy_string (Some s) = (s \<noteq> [])"

text \<open>
  The options of \<open>createHandler\<close>. An optional field is an \<open>option\<close>; the
  optional booleans \<open>credentials\<close> and \<open>async\<close> are plain booleans, as the
  handler only tests their truthiness, which is that of \<open>false\<close> when they are
  absent.
\<close>

record CorsOptions =
  origin :: "Origin option"
  methods :: "StringOrArray option"
  allowedHeaders :: "StringOrArray option"
  exposedHeaders :: "StringOrArray option"
  credentials :: bool
  maxAge :: "int option"

record FileUploadOptions =
  maxFieldSize :: "int option"
  maxFileSize :: "int option"
  maxFiles :: "int option"

record CreateHandlerOptions =
  cors :: "CorsOptions option"
  async :: bool
  uploadsConfig :: "FileUploadOptions option"

text \<open>
  The event body is \<open>string | null\<close> when the host delivers the event; the handler
  overwrites it with the value the upload processor resolves to, an object. The type
  variable \<open>'v\<close> stands for the JavaScript values the adapter only passes on.
\<close>

datatype 'v Body = Null | Str string | Processed 'v

fun truthy_Body :: "'v Body \<Rightarrow> bool" where
  "truthy_Body Null = False"
| "truthy_Body (Str s) = (s \<noteq> [])"
| "truthy_Body (Processed v) = True"

record RequestContext =
  requestContext_path :: "string option"

record 'v APIGatewayProxyEvent =
  httpMethod :: string
  path :: "string option"
  headers :: obj
  queryStringParameters :: "obj option"
  body :: "'v Body"
  isBase64Encoded :: bool
  requestContext :: "RequestContext option"

record LambdaContext =
  callbackWaitsForEmptyEventLoop :: bool

record APIGatewayProxyResult =
  result_body :: string
  statusCode :: int
  result_headers :: "obj option"

text \<open>
  What may be thrown, and what a promise may reject with: an \<open>HttpQueryError\<close>
  (status code, headers, message), an \<open>Error\<close> made by the adapter itself, the
  \<open>SyntaxError\<close> of \<open>JSON.parse\<close>, or any other value.
\<close>

datatype 'v Thrown =
    HttpQueryError int "obj option" string
  | Error string
  | SyntaxError
  | Value 'v

record 'v RenderPageOptions =
  endpoint :: "string option"
  otherOptions :: 'v

datatype Encoding = base64 | ascii

text \<open>
  The readable stream handed to the upload processor: the one chunk pushed into it
  (\<open>Buffer.from(event.body, encoding)\<close>, kept as the body and the encoding it is
  decoded with) and its \<open>headers\<close>.
\<close>

record 'v UploadRequest =
  chunk :: "'v Body"
  chunk_encoding :: Encoding
  request_headers :: obj

datatype 'v Query = FromQueryString "obj option" | FromBody "'v Body" | FromJSON 'v

record 'v HttpQueryRequest =
  query_method :: string
  query_options :: 'v
  query :: "'v Query"
  request_url :: "string option"
  request_method :: string
  request_Headers :: Headers

text \<open>
  The calls the adapter makes to the server, the engine, the upload processor and the
  renderer, in order and with their arguments.
\<close>

datatype 'v Call =
    AwaitWillStart
  | RenderPlaygroundPage "'v RenderPageOptions"
  | ProcessFileUploads "'v UploadRequest" FileUploadOptions
  | FormatApolloErrors "'v Thrown list"
  | CreateGraphQLServerOptions "'v APIGatewayProxyEvent" LambdaContext
  | RunHttpQuery "'v APIGatewayProxyEvent" LambdaContext "'v HttpQueryRequest"

text \<open>
  The server object \<open>this\<close> and the imported functions the handler calls. They are
  parameters of the model: \<open>willStart\<close> is what the start-up promise settles with
  (\<open>None\<close> when it resolves), \<open>processFileUploads\<close> is \<open>None\<close> when the import is
  not a function, and an asynchronous call returns \<open>Inl\<close> when its promise rejects.
\<close>

record 'v ApolloServer =
  playgroundOptions :: "'v RenderPageOptions option"
  renderPlaygroundPage :: "'v RenderPageOptions \<Rightarrow> string"
  willStart :: "'v Thrown option"
  processFileUploads ::
    "('v UploadRequest \<Rightarrow> FileUploadOptions \<Rightarrow> 'v Thrown + 'v) option"
  formatApolloErrors :: "'v Thrown list \<Rightarrow> 'v"
  createGraphQLServerOptions ::
    "'v APIGatewayProxyEvent \<Rightarrow> LambdaContext \<Rightarrow> 'v Thrown + 'v option"
  runHttpQuery ::
    "'v APIGatewayProxyEvent \<Rightarrow> LambdaContext \<Rightarrow> 'v HttpQueryRequest
       \<Rightarrow> 'v Thrown + (string \<times> obj option)"
  JSON_parse :: "'v Body \<Rightarrow> 'v option"

type_synonym 'v Outcome = "'v Thrown + APIGatewayProxyResult"

text \<open>
  How a handler invocation delivers its outcome: as the promise it returns, or through
  the completion callback (\<open>callback(null, result)\<close> or \<open>callback(error)\<close>).
\<close>

datatype 'v Delivery = ViaPromise "'v Outcome" | ViaCallback "'v Outcome"

fun delivered :: "'v Delivery \<Rightarrow> 'v Outcome" where
  "delivered (ViaPromise r) = r"
| "delivered (ViaCallback r) = r"

section \<open>The execution bridge: graphqlLambda\<close>

text \<open>
  The query of a request. \<open>Inl\<close> is the early return on a JSON body that does not
  parse; \<open>JSON.parse\<close> is the parameter \<open>JSON_parse\<close>, \<open>None\<close> when it throws.
\<close>

definition extractQuery ::
  "'v ApolloServer \<Rightarrow> 'v APIGatewayProxyEvent \<Rightarrow> string option
     \<Rightarrow> APIGatewayProxyResult + 'v Query" where
  "extractQuery srv event contentType =
     (if httpMethod event = ''POST'' \<and> truthy_Body (body event) then
        (if truthy_string contentType \<and> startsWith (the contentType) ''application/json'' then
           (case JSON_parse srv (body event) of
              None \<Rightarrow> Inl \<lparr>result_body = ''Error parsing JSON POST body'', statusCode = 415,
                           result_headers = None\<rparr>
            | Some parsed \<Rightarrow> Inr (FromJSON parsed))
         else Inr (FromBody (body event)))
      else Inr (FromQueryString (queryStringParameters event)))"

text \<open>
  The \<open>try\<close>/\<open>catch\<close> around \<open>runHttpQuery\<close>: a success and an
  \<open>HttpQueryError\<close> become results, anything else is thrown again.
\<close>

fun resultMapping :: "'v Thrown + (string \<times> obj option) \<Rightarrow> 'v Outcome" where
  "resultMapping (Inr (graphqlResponse, responseInit_headers)) =
     Inr \<lparr>result_body = graphqlResponse, statusCode = 200,
          result_headers = responseInit_headers\<rparr>"
| "resultMapping (Inl (HttpQueryError code hs message)) =
     Inr \<lparr>result_body = message, statusCode = code, result_headers = hs\<rparr>"
| "resultMapping (Inl error) = Inl error"

text \<open>
  \<open>graphqlLambda(options)(event, context)\<close>. The options are \<open>None\<close> when they are
  falsy. The second component lists the calls made to the engine.
\<close>

definition graphqlLambda ::
  "'v ApolloServer \<Rightarrow> 'v option \<Rightarrow> 'v APIGatewayProxyEvent \<Rightarrow> LambdaContext
     \<Rightarrow> 'v Outcome \<times> 'v Call list" where
  "graphqlLambda srv options event ctx =
     (case options of
        None \<Rightarrow> (Inl (Error ''Apollo Server requires options.''), [])
      | Some opts \<Rightarrow>
          (if httpMethod event = ''POST'' \<and> \<not> truthy_Body (body event) then
             (Inr \<lparr>result_body = ''POST body missing.'', statusCode = 500,
                   result_headers = None\<rparr>, [])
           else
             (let hdrs = new_Headers (headers event);
                  contentType = Headers_get hdrs ''content-type''
              in (case extractQuery srv event contentType of
                    Inl early \<Rightarrow> (Inr early, [])
                  | Inr q \<Rightarrow>
                      (let req = \<lparr>query_method = httpMethod event, query_options = opts,
                                  query = q, request_url = path event,
                                  request_method = httpMethod event,
                                  request_Headers = hdrs\<rparr>
                       in (resultMapping (runHttpQuery srv event ctx req),
                           [RunHttpQuery event ctx req]))))))"

subsection \<open>The older handlers\<close>

text \<open>
  The file \<open>packages/apollo-server-lambda/src/lambdaApollo.ts\<close> holds an older
  \<open>graphqlLambda\<close>, which takes a completion callback, and a
  \<open>graphqlLambdaAsync\<close>. \<open>createHandler\<close> awaits
  \<open>graphqlLambda(options)(event, context)\<close> and passes no callback, so the handler
  above is the one it runs; the older two are embedded here for what they share with it.
  They parse the body of every POST request, whatever its content type, and do not catch
  what \<open>JSON.parse\<close> throws.
\<close>

definition legacyQuery ::
  "'v ApolloServer \<Rightarrow> 'v APIGatewayProxyEvent \<Rightarrow> 'v Thrown + 'v Query" where
  "legacyQuery srv event =
     (if httpMethod event = ''POST'' \<and> truthy_Body (body event) then
        (case JSON_parse srv (body event) of
           None \<Rightarrow> Inl SyntaxError
         | Some parsed \<Rightarrow> Inr (FromJSON parsed))
      else Inr (FromQueryString (queryStringParameters event)))"

text \<open>
  \<open>graphqlLambdaAsync(options)(event, context)\<close>: the parse is inside the
  \<open>try\<close>, whose \<open>catch\<close> throws again what is no \<open>HttpQueryError\<close>.
\<close>

definition graphqlLambdaAsync ::
  "'v ApolloServer \<Rightarrow> 'v option \<Rightarrow> 'v APIGatewayProxyEvent \<Rightarrow> LambdaContext
     \<Rightarrow> 'v Outcome \<times> 'v Call list" where
  "graphqlLambdaAsync srv options event ctx =
     (case options of
        None \<Rightarrow> (Inl (Error ''Apollo Server requires options.''), [])
      | Some opts \<Rightarrow>
          (if httpMethod event = ''POST'' \<and> \<not> truthy_Body (body event) then
             (Inr \<lparr>result_body = ''POST body missing.'', statusCode = 500,
                   result_headers = None\<rparr>, [])
           else
             (case legacyQuery srv event of
                Inl error \<Rightarrow> (resultMapping (Inl error), [])
              | Inr q \<Rightarrow>
                  (let req = \<lparr>query_method = httpMethod event, query_options = opts,
                              query = q, request_url = path event,
                              request_method = httpMethod event,
                              request_Headers = new_Headers (headers event)\<rparr>
                   in (resultMapping (runHttpQuery srv event ctx req),
                       [RunHttpQuery event ctx req])))))"

text \<open>
  The older \<open>graphqlLambda(options)(event, context, callback)\<close>: \<open>Inl\<close> is
  what the call itself throws, \<open>Inr\<close> what the callback is given, with the context
  as the handler leaves it and the calls made.
\<close>

definition graphqlLambda_callback ::
  "'v ApolloServer \<Rightarrow> 'v option \<Rightarrow> 'v APIGatewayProxyEvent \<Rightarrow> LambdaContext
     \<Rightarrow> 'v Thrown + ('v Outcome \<times> LambdaContext \<times> 'v Call list)" where
  "graphqlLambda_callback srv options event ctx =
     (case options of
        None \<Rightarrow> Inl (Error ''Apollo Server requires options.'')
      | Some opts \<Rightarrow>
          (let ctx1 = ctx\<lparr>callbackWaitsForEmptyEventLoop := False\<rparr> in
           if httpMethod event = ''POST'' \<and> \<not> truthy_Body (body event) then
             Inr (Inr \<lparr>result_body = ''POST body missing.'', statusCode = 500,
                       result_headers = None\<rparr>, ctx1, [])
           else
             (case legacyQuery srv event of
                Inl error \<Rightarrow> Inl error
              | Inr q \<Rightarrow>
                  (let req = \<lparr>query_method = httpMethod event, query_options = opts,
                              query = q, request_url = path event,
                              request_method = httpMethod event,
                              request_Headers = new_Headers (headers event)\<rparr>
                   in Inr (resultMapping (runHttpQuery srv event ctx1 req), ctx1,
                           [RunHttpQuery event ctx1 req])))))"

section \<open>The request translator: createHandler\<close>

text \<open>The value a \<open>string | string[]\<close> option contributes to a header.\<close>

fun headerValue :: "StringOrArray \<Rightarrow> string" where
  "headerValue (OneString s) = s"
| "headerValue (StringArray xs) = join xs '',''"

definition setIfGiven :: "Headers \<Rightarrow> string \<Rightarrow> StringOrArray option \<Rightarrow> Headers" where
  "setIfGiven h name v =
     (if truthy_StringOrArray v then Headers_set h name (headerValue (the v)) else h)"

text \<open>The headers computed once, when the handler is created.\<close>

definition corsHeaders :: "CorsOptions option \<Rightarrow> Headers" where
  "corsHeaders c =
     (case c of
        None \<Rightarrow> []
      | Some cors1 \<Rightarrow>
          let h1 = setIfGiven [] ''access-control-allow-methods'' (methods cors1);
              h2 = setIfGiven h1 ''access-control-allow-headers'' (allowedHeaders cors1);
              h3 = setIfGiven h2 ''access-control-expose-headers'' (exposedHeaders cors1);
              h4 = (if credentials cors1
                    then Headers_set h3 ''access-control-allow-credentials'' ''true'' else h3)
          in (case maxAge cors1 of
                None \<Rightarrow> h4
              | Some n \<Rightarrow> Headers_set h4 ''access-control-max-age'' (number_toString n)))"

text \<open>The request-specific copy, extended from the request's headers.\<close>

definition requestCorsHeaders :: "CorsOptions option \<Rightarrow> Headers \<Rightarrow> Headers" where
  "requestCorsHeaders c eventHeaders =
     (let h0 = corsHeaders c in
      case c of
        None \<Rightarrow> h0
      | Some cors1 \<Rightarrow>
          if \<not> truthy_Origin (origin cors1) then h0
          else
            let requestOrigin = Headers_get eventHeaders ''origin'';
                h1 = (case origin cors1 of
                        Some (OriginString s) \<Rightarrow>
                          Headers_set h0 ''access-control-allow-origin'' s
                      | Some (OriginBoolean b) \<Rightarrow>
                          if truthy_string requestOrigin
                          then Headers_set h0 ''access-control-allow-origin'' (the requestOrigin)
                          else h0
                      | Some (OriginArray xs) \<Rightarrow>
                          if truthy_string requestOrigin \<and> the requestOrigin \<in> set xs
                          then Headers_set h0 ''access-control-allow-origin'' (the requestOrigin)
                          else h0
                      | None \<Rightarrow> h0);
                requestAccessControlRequestHeaders =
                  Headers_get eventHeaders ''access-control-request-headers''
            in if \<not> truthy_StringOrArray (allowedHeaders cors1)
                  \<and> truthy_string requestAccessControlRequestHeaders
               then Headers_set h1 ''access-control-allow-headers''
                      (the requestAccessControlRequestHeaders)
               else h1)"

definition requestCorsHeadersObject ::
  "CorsOptions option \<Rightarrow> 'v APIGatewayProxyEvent \<Rightarrow> obj" where
  "requestCorsHeadersObject c event =
     Headers_toObject (requestCorsHeaders c (new_Headers (headers event)))"

text \<open>
  \<open>handleFileUploads\<close>. It returns what the promise settles with, the event as the call
  leaves it (\<open>request.headers\<close> is the event's own headers object, so writing
  \<open>content-type\<close> into it changes the event), and the calls made.
\<close>

definition handleFileUploads ::
  "'v ApolloServer \<Rightarrow> 'v APIGatewayProxyEvent \<Rightarrow> Headers \<Rightarrow> FileUploadOptions
     \<Rightarrow> ('v Thrown + 'v Body) \<times> 'v APIGatewayProxyEvent \<times> 'v Call list" where
  "handleFileUploads srv event hdrs config =
     (case processFileUploads srv of
        None \<Rightarrow> (Inr (body event), event, [])
      | Some process \<Rightarrow>
          if body event = Null then (Inr (body event), event, [])
          else
            let contentType = Headers_get hdrs ''content-type'' in
            if truthy_string contentType \<and> startsWith (the contentType) ''multipart/form-data''
            then
              let event1 = event\<lparr>headers :=
                             obj_set (headers event) ''content-type'' (the contentType)\<rparr>;
                  request = \<lparr>chunk = body event,
                             chunk_encoding = (if isBase64Encoded event then base64 else ascii),
                             request_headers = headers event1\<rparr>
              in (map_sum id Processed (process request config), event1,
                  [ProcessFileUploads request config])
            else (Inr (body event), event, []))"

text \<open>\<open>uploadsConfig || {}\<close>\<close>

definition uploadsConfig_or_empty :: "FileUploadOptions option \<Rightarrow> FileUploadOptions" where
  "uploadsConfig_or_empty u =
     (case u of
        None \<Rightarrow> \<lparr>maxFieldSize = None, maxFileSize = None, maxFiles = None\<rparr>
      | Some config \<Rightarrow> config)"

text \<open>
  The body of \<open>promiseWillStart.then(async () => ...)\<close>: what \<open>resultPromise\<close> settles
  with, and the calls made on the way.
\<close>

definition resultPromise ::
  "CreateHandlerOptions \<Rightarrow> 'v ApolloServer \<Rightarrow> 'v APIGatewayProxyEvent \<Rightarrow> LambdaContext
     \<Rightarrow> 'v Outcome \<times> 'v Call list" where
  "resultPromise opts srv event ctx =
     (case willStart srv of
        Some error \<Rightarrow> (Inl error, [AwaitWillStart])
      | None \<Rightarrow>
          (case handleFileUploads srv event (new_Headers (headers event))
                  (uploadsConfig_or_empty (uploadsConfig opts)) of
             (Inl error, event1, calls1) \<Rightarrow>
               (Inl (Value (formatApolloErrors srv [error])),
                AwaitWillStart # calls1 @ [FormatApolloErrors [error]])
           | (Inr newBody, event1, calls1) \<Rightarrow>
               let event2 = event1\<lparr>body := newBody\<rparr> in
               (case createGraphQLServerOptions srv event2 ctx of
                  Inl error \<Rightarrow>
                    (Inl error,
                     AwaitWillStart # calls1 @ [CreateGraphQLServerOptions event2 ctx])
                | Inr options \<Rightarrow>
                    (case graphqlLambda srv options event2 ctx of
                       (Inl error, calls2) \<Rightarrow>
                         (Inl error,
                          AwaitWillStart # calls1 @ [CreateGraphQLServerOptions event2 ctx]
                            @ calls2)
                     | (Inr result, calls2) \<Rightarrow>
                         (Inr (result\<lparr>result_headers :=
                                 Some (spread (spread_opt (result_headers result))
                                         (requestCorsHeadersObject (cors opts) event))\<rparr>),
                          AwaitWillStart # calls1 @ [CreateGraphQLServerOptions event2 ctx]
                            @ calls2)))))"

text \<open>\<open>event.path || (event.requestContext && event.requestContext.path) || '/'\<close>\<close>

definition playgroundPath :: "'v APIGatewayProxyEvent \<Rightarrow> string" where
  "playgroundPath event =
     (if truthy_string (path event) then the (path event)
      else case requestContext event of
             None \<Rightarrow> ''/''
           | Some rc \<Rightarrow>
               if truthy_string (requestContext_path rc) then the (requestContext_path rc)
               else ''/'')"

text \<open>\<open>{ endpoint: path, ...this.playgroundOptions }\<close>\<close>

definition playgroundRenderPageOptions ::
  "string \<Rightarrow> 'v RenderPageOptions \<Rightarrow> 'v RenderPageOptions" where
  "playgroundRenderPageOptions path1 pg =
     \<lparr>endpoint = (case endpoint pg of None \<Rightarrow> Some path1 | Some e \<Rightarrow> Some e),
      otherOptions = otherOptions pg\<rparr>"

text \<open>\<open>event.headers['Accept'] || event.headers['accept']\<close>\<close>

definition acceptHeader :: "'v APIGatewayProxyEvent \<Rightarrow> string option" where
  "acceptHeader event =
     (if truthy_string (obj_get (headers event) ''Accept'')
      then obj_get (headers event) ''Accept''
      else obj_get (headers event) ''accept'')"

text \<open>
  The function \<open>createHandler\<close> returns, applied to an event and a context: how the
  outcome is delivered, the context as the handler leaves it, and the calls it made.
\<close>

definition handler ::
  "CreateHandlerOptions \<Rightarrow> 'v ApolloServer \<Rightarrow> 'v APIGatewayProxyEvent \<Rightarrow> LambdaContext
     \<Rightarrow> 'v Delivery \<times> LambdaContext \<times> 'v Call list" where
  "handler opts srv event ctx =
     (let corsObject = requestCorsHeadersObject (cors opts) event in
      if httpMethod event = ''OPTIONS'' then
        (let result = \<lparr>result_body = [], statusCode = 204,
                        result_headers = Some (spread [] corsObject)\<rparr>
         in if async opts then (ViaPromise (Inr result), ctx, [])
            else (ViaCallback (Inr result),
                  ctx\<lparr>callbackWaitsForEmptyEventLoop := False\<rparr>, []))
      else if playgroundOptions srv \<noteq> None \<and> httpMethod event = ''GET''
              \<and> truthy_string (acceptHeader event)
              \<and> includes_str (the (acceptHeader event)) ''text/html''
      then
        (let pageOptions =
               playgroundRenderPageOptions (playgroundPath event) (the (playgroundOptions srv));
             result = \<lparr>result_body = renderPlaygroundPage srv pageOptions, statusCode = 200,
                        result_headers =
                          Some (spread [(''Content-Type'', ''text/html'')] corsObject)\<rparr>
         in if async opts then (ViaPromise (Inr result), ctx, [RenderPlaygroundPage pageOptions])
            else (ViaCallback (Inr result), ctx, [RenderPlaygroundPage pageOptions]))
      else
        (let ctx1 = (if \<not> async opts
                     then ctx\<lparr>callbackWaitsForEmptyEventLoop := False\<rparr> else ctx)
         in case resultPromise opts srv event ctx1 of
              (outcome, calls) \<Rightarrow>
                if async opts then (ViaPromise outcome, ctx1, calls)
                else (ViaCallback outcome, ctx1, calls)))"

section \<open>Concrete servers, configurations and events\<close>

text \<open>
  A server whose collaborators are small total functions, with the opaque values taken
  to be strings. Its engine answers with the state of the context flag in the body and
  with two headers of its own, rejects the query \<open>forbidden\<close> with an
  \<open>HttpQueryError\<close> and the query \<open>crash\<close> with some other value; its upload
  processor rejects the body \<open>bad\<close>; its JSON parser rejects the body \<open>{\<close>.
\<close>

definition demoEngine ::
  "string APIGatewayProxyEvent \<Rightarrow> LambdaContext \<Rightarrow> string HttpQueryRequest
     \<Rightarrow> string Thrown + (string \<times> obj option)" where
  "demoEngine ev c req =
     (if query req = FromBody (Str ''forbidden'')
      then Inl (HttpQueryError 403 (Some [(''x-reason'', ''policy'')]) ''Forbidden'')
      else if query req = FromBody (Str ''crash'') then Inl (Value ''boom'')
      else Inr (if callbackWaitsForEmptyEventLoop c then ''data: waiting'' else ''data: not waiting'',
                Some [(''Content-Type'', ''application/json''),
                      (''access-control-allow-origin'', ''https://engine.example'')]))"

definition demoUploads ::
  "string UploadRequest \<Rightarrow> FileUploadOptions \<Rightarrow> string Thrown + string" where
  "demoUploads req config =
     (if chunk req = Str ''bad'' then Inl (Error ''upload failed'') else Inr ''operations'')"

definition demoServer :: "string ApolloServer" where
  "demoServer =
     \<lparr>playgroundOptions = Some \<lparr>endpoint = None, otherOptions = ''settings''\<rparr>,
      renderPlaygroundPage =
        (\<lambda>pageOptions. ''<html>'' @ (case endpoint pageOptions of None \<Rightarrow> [] | Some e \<Rightarrow> e)),
      willStart = None,
      processFileUploads = Some demoUploads,
      formatApolloErrors = (\<lambda>errors. ''formatted errors''),
      createGraphQLServerOptions = (\<lambda>ev c. Inr (Some ''options'')),
      runHttpQuery = demoEngine,
      JSON_parse = (\<lambda>b. if b = Str ''{'' then None else Some ''parsed'')\<rparr>"

definition demoCors :: CorsOptions where
  "demoCors =
     \<lparr>origin = Some (OriginString ''https://cors.example''),
      methods = Some (StringArray [''GET'', ''POST'']),
      allowedHeaders = None, exposedHeaders = None, credentials = True,
      maxAge = Some 600\<rparr>"

definition demoOptions :: CreateHandlerOptions where
  "demoOptions = \<lparr>cors = Some demoCors, async = False, uploadsConfig = None\<rparr>"

definition demoContext :: LambdaContext where
  "demoContext = \<lparr>callbackWaitsForEmptyEventLoop = True\<rparr>"

definition demoEvent :: "string \<Rightarrow> obj \<Rightarrow> string Body \<Rightarrow> string APIGatewayProxyEvent" where
  "demoEvent m hs b =
     \<lparr>httpMethod = m, path = Some ''/graphql'', headers = hs,
      queryStringParameters = None, body = b, isBase64Encoded = False,
      requestContext = None\<rparr>"

section \<open>Properties\<close>

subsection \<open>Objects and the spread\<close>

lemma obj_get_obj_set:
  "obj_get (obj_set o1 k v) k' = (if k' = k then Some v else obj_get o1 k')"
  by (simp add: obj_get_def obj_set_def update_conv')

lemma keys_obj_set:
  "fst ` set (obj_set o1 k v) = insert k (fst ` set o1)"
  by (simp add: obj_set_def dom_update)

lemma distinct_obj_set:
  "distinct (map fst o1) \<Longrightarrow> distinct (map fst (obj_set o1 k v))"
  by (simp add: obj_set_def distinct_update)

lemma spread_Nil: "spread a [] = a"
  by (simp add: spread_def)

lemma spread_Cons: "spread a ((k, v) # b) = spread (obj_set a k v) b"
  by (simp add: spread_def)

lemma obj_get_spread_other:
  "k \<notin> fst ` set b \<Longrightarrow> obj_get (spread a b) k = obj_get a k"
proof (induction b arbitrary: a)
  case Nil
  show ?case by (simp add: spread_Nil)
next
  case (Cons p b)
  obtain k' v' where p: "p = (k', v')" by (cases p)
  from Cons.prems p have "k \<noteq> k'" and "k \<notin> fst ` set b" by auto
  then show ?case
    using Cons.IH [of "obj_set a k' v'"] by (simp add: p spread_Cons obj_get_obj_set)
qed

lemma obj_get_spread_over:
  "distinct (map fst b) \<Longrightarrow> map_of b k = Some v \<Longrightarrow> obj_get (spread a b) k = Some v"
proof (induction b arbitrary: a)
  case Nil
  then show ?case by simp
next
  case (Cons p b)
  obtain k' v' where p: "p = (k', v')" by (cases p)
  show ?case
  proof (cases "k = k'")
    case True
    with Cons.prems p have "v' = v" and "k \<notin> fst ` set b" by auto
    then show ?thesis
      using True by (simp add: p spread_Cons obj_get_spread_other obj_get_obj_set)
  next
    case False
    with Cons.prems p have "distinct (map fst b)" and "map_of b k = Some v" by auto
    then show ?thesis
      using Cons.IH [of "obj_set a k' v'"] by (simp add: p spread_Cons)
  qed
qed

lemma distinct_spread:
  "distinct (map fst a) \<Longrightarrow> distinct (map fst (spread a b))"
proof (induction b arbitrary: a)
  case Nil
  then show ?case by (simp add: spread_Nil)
next
  case (Cons p b)
  then show ?case by (cases p) (simp add: spread_Cons distinct_obj_set)
qed

lemma keys_spread: "fst ` set (spread a b) = fst ` set a \<union> fst ` set b"
proof (induction b arbitrary: a)
  case Nil
  show ?case by (simp add: spread_Nil)
next
  case (Cons p b)
  then show ?case by (cases p) (auto simp add: spread_Cons keys_obj_set)
qed

lemma Headers_toObject_spread: "Headers_toObject h = spread [] h"
  by (simp add: Headers_toObject_def spread_def)


subsection \<open>The CORS headers\<close>

lemma toLowerCase_names:
  "toLowerCase ''access-control-allow-methods'' = ''access-control-allow-methods''"
  "toLowerCase ''access-control-allow-headers'' = ''access-control-allow-headers''"
  "toLowerCase ''access-control-expose-headers'' = ''access-control-expose-headers''"
  "toLowerCase ''access-control-allow-credentials'' = ''access-control-allow-credentials''"
  "toLowerCase ''access-control-max-age'' = ''access-control-max-age''"
  "toLowerCase ''access-control-allow-origin'' = ''access-control-allow-origin''"
  "toLowerCase ''access-control-request-headers'' = ''access-control-request-headers''"
  "toLowerCase ''origin'' = ''origin''"
  "toLowerCase ''content-type'' = ''content-type''"
  by (simp_all add: toLowerCase_def toLowerCase_char_def)

lemma map_of_Headers_set:
  "map_of (Headers_set h name v) k = (if k = toLowerCase name then Some v else map_of h k)"
  by (simp add: Headers_set_def update_conv')

lemma distinct_Headers_set:
  "distinct (map fst h) \<Longrightarrow> distinct (map fst (Headers_set h name v))"
  by (simp add: Headers_set_def distinct_update)

lemma distinct_setIfGiven:
  "distinct (map fst h) \<Longrightarrow> distinct (map fst (setIfGiven h name v))"
  by (simp add: setIfGiven_def distinct_Headers_set)

lemma map_of_setIfGiven:
  "map_of (setIfGiven h name x) k =
     (if truthy_StringOrArray x \<and> k = toLowerCase name then Some (headerValue (the x))
      else map_of h k)"
  by (simp add: setIfGiven_def map_of_Headers_set)

lemma distinct_corsHeaders: "distinct (map fst (corsHeaders c))"
  by (simp add: corsHeaders_def Let_def distinct_setIfGiven distinct_Headers_set
      split: option.split)

lemma corsHeaders_no_origin:
  "map_of (corsHeaders c) ''access-control-allow-origin'' = None"
  by (simp add: corsHeaders_def Let_def map_of_setIfGiven map_of_Headers_set toLowerCase_names
      split: option.split)

lemma corsHeaders_allow_headers:
  "map_of (corsHeaders (Some cors1)) ''access-control-allow-headers'' = Some v
     \<Longrightarrow> truthy_StringOrArray (allowedHeaders cors1)"
  by (simp add: corsHeaders_def Let_def map_of_setIfGiven map_of_Headers_set toLowerCase_names
      split: option.splits if_splits)

lemma distinct_requestCorsHeaders: "distinct (map fst (requestCorsHeaders c eventHeaders))"
  by (simp add: requestCorsHeaders_def Let_def distinct_corsHeaders distinct_Headers_set
      split: option.split Origin.split)

lemma requestCorsHeaders_keeps_base:
  assumes "map_of (corsHeaders c) k = Some v"
  shows "map_of (requestCorsHeaders c eventHeaders) k = Some v"
proof (cases c)
  case None
  with assms show ?thesis by (simp add: requestCorsHeaders_def)
next
  case (Some cors1)
  from assms corsHeaders_no_origin [of c]
  have k1: "k \<noteq> ''access-control-allow-origin''" by auto
  have k2: "k = ''access-control-allow-headers'' \<Longrightarrow> truthy_StringOrArray (allowedHeaders cors1)"
    using assms Some corsHeaders_allow_headers by blast
  show ?thesis
    using assms k1 k2
    by (auto simp add: Some requestCorsHeaders_def Let_def map_of_Headers_set toLowerCase_names
        split: option.split Origin.split)
qed


subsection \<open>The headers of every response\<close>

lemma distinct_requestCorsHeadersObject:
  "distinct (map fst (requestCorsHeadersObject c event))"
  by (simp add: requestCorsHeadersObject_def Headers_toObject_spread distinct_spread)

lemma requestCorsHeadersObject_get:
  "obj_get (requestCorsHeadersObject c event) k
     = map_of (requestCorsHeaders c (new_Headers (headers event))) k"
proof (cases "map_of (requestCorsHeaders c (new_Headers (headers event))) k")
  case None
  then have "k \<notin> fst ` set (requestCorsHeaders c (new_Headers (headers event)))"
    by (simp add: map_of_eq_None_iff)
  then have "obj_get (spread [] (requestCorsHeaders c (new_Headers (headers event)))) k
                = obj_get [] k"
    by (rule obj_get_spread_other)
  then show ?thesis
    using None
    by (simp add: requestCorsHeadersObject_def Headers_toObject_spread obj_get_def)
next
  case (Some v)
  then show ?thesis
    by (simp add: requestCorsHeadersObject_def Headers_toObject_spread obj_get_spread_over
        distinct_requestCorsHeaders)
qed

lemma resultPromise_headers:
  assumes "resultPromise opts srv event ctx = (Inr response, calls)"
  shows "\<exists>a. result_headers response
              = Some (spread a (requestCorsHeadersObject (cors opts) event))"
  using assms
  by (auto simp add: resultPromise_def Let_def split: option.splits prod.splits sum.splits)

lemma handler_headers:
  assumes "delivered (fst (handler opts srv event ctx)) = Inr response"
  shows "\<exists>a. result_headers response
              = Some (spread a (requestCorsHeadersObject (cors opts) event))"
proof -
  consider (options) "httpMethod event = ''OPTIONS''"
    | (page) "httpMethod event \<noteq> ''OPTIONS''" "playgroundOptions srv \<noteq> None \<and> httpMethod event = ''GET''
              \<and> truthy_string (acceptHeader event)
              \<and> includes_str (the (acceptHeader event)) ''text/html''"
    | (primary) "httpMethod event \<noteq> ''OPTIONS''" "\<not> (playgroundOptions srv \<noteq> None \<and> httpMethod event = ''GET''
              \<and> truthy_string (acceptHeader event)
              \<and> includes_str (the (acceptHeader event)) ''text/html'')"
    by blast
  then show ?thesis
  proof cases
    case options
    with assms show ?thesis
      by (auto simp add: handler_def Let_def split: if_splits)
  next
    case page
    with assms show ?thesis
      by (auto simp add: handler_def Let_def split: if_splits)
  next
    case primary
    obtain outcome calls where rp: "resultPromise opts srv event
        (if \<not> async opts then ctx\<lparr>callbackWaitsForEmptyEventLoop := False\<rparr> else ctx)
          = (outcome, calls)"
      by (cases "resultPromise opts srv event
        (if \<not> async opts then ctx\<lparr>callbackWaitsForEmptyEventLoop := False\<rparr> else ctx)")
    from assms primary rp have "outcome = Inr response"
      by (auto simp add: handler_def Let_def split: if_splits)
    with rp show ?thesis using resultPromise_headers by blast
  qed
qed

text \<open>
  Claim C1. Whatever response the handler delivers (the preflight answer, the tool page,
  or the result of the execution bridge, which includes the responses made from client
  errors and from structured query errors), every header of the base CORS headers, which
  are computed once from the policy, is a property of the response's headers, with the
  value the base headers give it.
\<close>

theorem C1_base_cors_headers_in_every_response:
  assumes "delivered (fst (handler opts srv event ctx)) = Inr response"
    and "(name, v) \<in> set (corsHeaders (cors opts))"
  shows "\<exists>hs. result_headers response = Some hs \<and> obj_get hs name = Some v"
proof -
  from assms(2) have "map_of (corsHeaders (cors opts)) name = Some v"
    by (simp add: distinct_corsHeaders)
  then have "map_of (requestCorsHeaders (cors opts) (new_Headers (headers event))) name = Some v"
    by (rule requestCorsHeaders_keeps_base)
  then have "map_of (requestCorsHeadersObject (cors opts) event) name = Some v"
    using requestCorsHeadersObject_get [of "cors opts" event name] by (simp add: obj_get_def)
  moreover obtain a where
    "result_headers response = Some (spread a (requestCorsHeadersObject (cors opts) event))"
    using handler_headers [OF assms(1)] by blast
  ultimately show ?thesis
    by (simp add: obj_get_spread_over distinct_requestCorsHeadersObject)
qed


theorem C1_witness:
  "delivered (fst (handler demoOptions demoServer
                     (demoEvent ''POST'' [] (Str ''forbidden'')) demoContext))
     = Inr \<lparr>result_body = ''Forbidden'', statusCode = 403,
            result_headers =
              Some [(''x-reason'', ''policy''),
                    (''access-control-allow-methods'', ''GET,POST''),
                    (''access-control-allow-credentials'', ''true''),
                    (''access-control-max-age'', ''600''),
                    (''access-control-allow-origin'', ''https://cors.example'')]\<rparr>
   \<and> (''access-control-max-age'', ''600'') \<in> set (corsHeaders (cors demoOptions))
   \<and> (\<exists>hs. result_headers
               \<lparr>result_body = ''Forbidden'', statusCode = 403,
                result_headers =
                  Some [(''x-reason'', ''policy''),
                        (''access-control-allow-methods'', ''GET,POST''),
                        (''access-control-allow-credentials'', ''true''),
                        (''access-control-max-age'', ''600''),
                        (''access-control-allow-origin'', ''https://cors.example'')]\<rparr>
               = Some hs
             \<and> obj_get hs ''access-control-max-age'' = Some ''600'')"
proof -
  have h1: "delivered (fst (handler demoOptions demoServer
                     (demoEvent ''POST'' [] (Str ''forbidden'')) demoContext))
     = Inr \<lparr>result_body = ''Forbidden'', statusCode = 403,
            result_headers =
              Some [(''x-reason'', ''policy''),
                    (''access-control-allow-methods'', ''GET,POST''),
                    (''access-control-allow-credentials'', ''true''),
                    (''access-control-max-age'', ''600''),
                    (''access-control-allow-origin'', ''https://cors.example'')]\<rparr>"
    by code_simp
  have h2: "(''access-control-max-age'', ''600'') \<in> set (corsHeaders (cors demoOptions))"
    by code_simp
  from C1_base_cors_headers_in_every_response [OF h1 h2] h1 h2 show ?thesis
    by blast
qed

subsection \<open>The preflight answer\<close>

lemma update_fresh: "k \<notin> fst ` set a \<Longrightarrow> AList.update k v a = a @ [(k, v)]"
  by (induction a) auto

lemma spread_disjoint:
  "distinct (map fst b) \<Longrightarrow> fst ` set a \<inter> fst ` set b = {} \<Longrightarrow> spread a b = a @ b"
proof (induction b arbitrary: a)
  case Nil
  show ?case by (simp add: spread_Nil)
next
  case (Cons p b)
  obtain k v where p: "p = (k, v)" by (cases p)
  from Cons.prems p have fresh: "k \<notin> fst ` set a" by auto
  from Cons.prems p have "distinct (map fst b)"
    and "fst ` set (a @ [(k, v)]) \<inter> fst ` set b = {}" by auto
  then have "spread (a @ [(k, v)]) b = (a @ [(k, v)]) @ b" by (rule Cons.IH)
  then show ?case
    using fresh by (simp add: p spread_Cons obj_set_def update_fresh)
qed

lemma spread_empty_distinct: "distinct (map fst b) \<Longrightarrow> spread [] b = b"
  using spread_disjoint [of b "[]"] by simp

lemma obj_get_spread:
  assumes "distinct (map fst b)"
  shows "obj_get (spread a b) k = (case obj_get b k of Some v \<Rightarrow> Some v | None \<Rightarrow> obj_get a k)"
proof (cases "map_of b k")
  case None
  then have "k \<notin> fst ` set b" by (simp add: map_of_eq_None_iff)
  then have "obj_get (spread a b) k = obj_get a k" by (rule obj_get_spread_other)
  then show ?thesis using None by (simp add: obj_get_def)
next
  case (Some v)
  with assms have "obj_get (spread a b) k = Some v" by (rule obj_get_spread_over)
  then show ?thesis using Some by (simp add: obj_get_def)
qed

text \<open>
  Claim C5. A request with method OPTIONS is answered with status 204, an empty body and
  exactly the request-specific CORS headers, through the promise in promise mode and
  through the callback in callback mode (where the context is told not to wait). The
  answer does not mention the server: no call is made to it, to the engine or to the
  start-up promise, as the empty list of calls says.
\<close>

theorem C5_preflight:
  assumes "httpMethod event = ''OPTIONS''"
  shows "handler opts srv event ctx =
           ((if async opts then ViaPromise else ViaCallback)
              (Inr \<lparr>result_body = [], statusCode = 204,
                    result_headers = Some (requestCorsHeadersObject (cors opts) event)\<rparr>),
            (if async opts then ctx else ctx\<lparr>callbackWaitsForEmptyEventLoop := False\<rparr>),
            [])"
  using assms
  by (simp add: handler_def Let_def spread_empty_distinct distinct_requestCorsHeadersObject)

theorem C5_witness:
  "httpMethod (demoEvent ''OPTIONS'' [(''Origin'', ''https://a.example'')] Null) = ''OPTIONS''
   \<and> handler demoOptions demoServer
         (demoEvent ''OPTIONS'' [(''Origin'', ''https://a.example'')] Null) demoContext
       = (ViaCallback
            (Inr \<lparr>result_body = [], statusCode = 204,
                  result_headers =
                    Some [(''access-control-allow-methods'', ''GET,POST''),
                          (''access-control-allow-credentials'', ''true''),
                          (''access-control-max-age'', ''600''),
                          (''access-control-allow-origin'', ''https://cors.example'')]\<rparr>),
          \<lparr>callbackWaitsForEmptyEventLoop = False\<rparr>, [])"
proof -
  have h: "httpMethod (demoEvent ''OPTIONS'' [(''Origin'', ''https://a.example'')] Null)
             = ''OPTIONS''"
    by (simp add: demoEvent_def)
  have c: "requestCorsHeadersObject (cors demoOptions)
             (demoEvent ''OPTIONS'' [(''Origin'', ''https://a.example'')] (Null :: string Body))
           = [(''access-control-allow-methods'', ''GET,POST''),
              (''access-control-allow-credentials'', ''true''),
              (''access-control-max-age'', ''600''),
              (''access-control-allow-origin'', ''https://cors.example'')]"
    by code_simp
  have a: "\<not> async demoOptions" by (simp add: demoOptions_def)
  have x: "demoContext\<lparr>callbackWaitsForEmptyEventLoop := False\<rparr>
             = \<lparr>callbackWaitsForEmptyEventLoop = False\<rparr>"
    by (simp add: demoContext_def)
  show ?thesis
    using C5_preflight [OF h, of demoOptions demoServer demoContext] h
    by (simp add: c a x)
qed

subsection \<open>The allowed origin\<close>

lemma requestCorsHeaders_allow_origin:
  "map_of (requestCorsHeaders (Some cors1) eventHeaders) ''access-control-allow-origin'' =
     (case origin cors1 of
        None \<Rightarrow> None
      | Some (OriginString s) \<Rightarrow> if s = [] then None else Some s
      | Some (OriginBoolean b) \<Rightarrow>
          if b \<and> truthy_string (Headers_get eventHeaders ''origin'')
          then Headers_get eventHeaders ''origin'' else None
      | Some (OriginArray xs) \<Rightarrow>
          if truthy_string (Headers_get eventHeaders ''origin'')
             \<and> the (Headers_get eventHeaders ''origin'') \<in> set xs
          then Headers_get eventHeaders ''origin'' else None)"
  using corsHeaders_no_origin [of "Some cors1"]
  by (cases "Headers_get eventHeaders ''origin''")
     (simp_all add: requestCorsHeaders_def Let_def map_of_Headers_set toLowerCase_names
      split: option.split Origin.split)

text \<open>
  Claim C2, as amended. The header \<open>access-control-allow-origin\<close> computed for a
  request: a literal string that is not empty is used as it is, whatever the request's
  origin; with \<open>true\<close>, and with a list that contains it, the request's origin is
  used when the request has one that is not empty; in every other case (the origin
  option unset, \<open>false\<close> or the empty string, no origin in the request or an empty
  one, an origin the list does not contain) the header is omitted.
\<close>

theorem C2_allow_origin:
  "(origin cors1 = Some (OriginString s) \<and> s \<noteq> []
      \<longrightarrow> obj_get (requestCorsHeadersObject (Some cors1) event) ''access-control-allow-origin''
            = Some s)
   \<and> (origin cors1 = Some (OriginBoolean True)
      \<longrightarrow> obj_get (requestCorsHeadersObject (Some cors1) event) ''access-control-allow-origin''
            = (if truthy_string (Headers_get (new_Headers (headers event)) ''origin'')
               then Headers_get (new_Headers (headers event)) ''origin'' else None))
   \<and> (origin cors1 = Some (OriginArray xs)
      \<longrightarrow> obj_get (requestCorsHeadersObject (Some cors1) event) ''access-control-allow-origin''
            = (if truthy_string (Headers_get (new_Headers (headers event)) ''origin'')
                  \<and> the (Headers_get (new_Headers (headers event)) ''origin'') \<in> set xs
               then Headers_get (new_Headers (headers event)) ''origin'' else None))
   \<and> (\<not> truthy_Origin (origin cors1)
      \<longrightarrow> obj_get (requestCorsHeadersObject (Some cors1) event) ''access-control-allow-origin''
            = None)"
  by (cases "origin cors1" rule: truthy_Origin.cases)
     (simp_all add: requestCorsHeadersObject_get requestCorsHeaders_allow_origin)

theorem C2_witness:
  "obj_get (requestCorsHeadersObject (Some demoCors)
              (demoEvent ''GET'' [(''Origin'', ''https://a.example'')] (Null :: string Body)))
     ''access-control-allow-origin'' = Some ''https://cors.example''
   \<and> obj_get (requestCorsHeadersObject (Some (demoCors\<lparr>origin := Some (OriginBoolean True)\<rparr>))
              (demoEvent ''GET'' [(''Origin'', ''https://a.example'')] (Null :: string Body)))
     ''access-control-allow-origin'' = Some ''https://a.example''
   \<and> obj_get (requestCorsHeadersObject
                (Some (demoCors\<lparr>origin := Some (OriginArray [''https://b.example''])\<rparr>))
              (demoEvent ''GET'' [(''Origin'', ''https://a.example'')] (Null :: string Body)))
     ''access-control-allow-origin'' = None
   \<and> obj_get (requestCorsHeadersObject (Some (demoCors\<lparr>origin := Some (OriginBoolean False)\<rparr>))
              (demoEvent ''GET'' [(''Origin'', ''https://a.example'')] (Null :: string Body)))
     ''access-control-allow-origin'' = None"
proof -
  have o: "Headers_get (new_Headers (headers
             (demoEvent ''GET'' [(''Origin'', ''https://a.example'')] (Null :: string Body))))
             ''origin'' = Some ''https://a.example''"
    by code_simp
  have 1: "origin demoCors = Some (OriginString ''https://cors.example'')
           \<and> ''https://cors.example'' \<noteq> []"
    by (simp add: demoCors_def)
  have 2: "origin (demoCors\<lparr>origin := Some (OriginBoolean True)\<rparr>) = Some (OriginBoolean True)"
    by simp
  have 3: "origin (demoCors\<lparr>origin := Some (OriginArray [''https://b.example''])\<rparr>)
             = Some (OriginArray [''https://b.example''])"
    by simp
  have 4: "\<not> truthy_Origin (origin (demoCors\<lparr>origin := Some (OriginBoolean False)\<rparr>))"
    by simp
  show ?thesis
    using 1 2 3 4 o
      C2_allow_origin [of demoCors "''https://cors.example''"
        "demoEvent ''GET'' [(''Origin'', ''https://a.example'')] (Null :: string Body)"]
      C2_allow_origin [of "demoCors\<lparr>origin := Some (OriginBoolean True)\<rparr>" _
        "demoEvent ''GET'' [(''Origin'', ''https://a.example'')] (Null :: string Body)"]
      C2_allow_origin [of "demoCors\<lparr>origin := Some (OriginArray [''https://b.example''])\<rparr>" _
        "demoEvent ''GET'' [(''Origin'', ''https://a.example'')] (Null :: string Body)"
        "[''https://b.example'']"]
      C2_allow_origin [of "demoCors\<lparr>origin := Some (OriginBoolean False)\<rparr>" _
        "demoEvent ''GET'' [(''Origin'', ''https://a.example'')] (Null :: string Body)"]
    by simp
qed

theorem C2_counterexample:
  "origin (demoCors\<lparr>origin := Some (OriginString [])\<rparr>) = Some (OriginString [])
   \<and> obj_get (requestCorsHeadersObject (Some (demoCors\<lparr>origin := Some (OriginString [])\<rparr>))
                (demoEvent ''GET'' [(''Origin'', ''https://a.example'')] (Null :: string Body)))
        ''access-control-allow-origin'' = None
   \<and> obj_get (requestCorsHeadersObject (Some (demoCors\<lparr>origin := Some (OriginString [])\<rparr>))
                (demoEvent ''GET'' [(''Origin'', ''https://a.example'')] (Null :: string Body)))
        ''access-control-allow-origin'' \<noteq> Some []"
  by code_simp

subsection \<open>The execution bridge\<close>

lemma startsWith_Nil: "p \<noteq> [] \<Longrightarrow> \<not> startsWith [] p"
  by (auto simp add: startsWith_def)



text \<open>
  The older handlers answer a POST request without a body in the same way; the rest of
  their handling of a POST body is \<open>legacyQuery\<close>.
\<close>

lemma legacy_post_body_missing:
  assumes "httpMethod event = ''POST''"
    and "body event = Null \<or> body event = Str []"
  shows "graphqlLambdaAsync srv (Some opts) event ctx
           = (Inr \<lparr>result_body = ''POST body missing.'', statusCode = 500,
                    result_headers = None\<rparr>, [])"
    and "graphqlLambda_callback srv (Some opts) event ctx
           = Inr (Inr \<lparr>result_body = ''POST body missing.'', statusCode = 500,
                        result_headers = None\<rparr>,
                  ctx\<lparr>callbackWaitsForEmptyEventLoop := False\<rparr>, [])"
proof -
  from assms(2) have "\<not> truthy_Body (body event)" by auto
  with assms(1) show "graphqlLambdaAsync srv (Some opts) event ctx
           = (Inr \<lparr>result_body = ''POST body missing.'', statusCode = 500,
                    result_headers = None\<rparr>, [])"
    and "graphqlLambda_callback srv (Some opts) event ctx
           = Inr (Inr \<lparr>result_body = ''POST body missing.'', statusCode = 500,
                        result_headers = None\<rparr>,
                  ctx\<lparr>callbackWaitsForEmptyEventLoop := False\<rparr>, [])"
    by (simp_all add: graphqlLambdaAsync_def graphqlLambda_callback_def Let_def)
qed

subsection \<open>The tool page\<close>











subsection \<open>The primary path\<close>

lemma graphqlLambda_engine_call:
  assumes "graphqlLambda srv options ev ctx = (outcome, calls)"
    and "RunHttpQuery ev' c' req \<in> set calls"
  shows "ev' = ev \<and> c' = ctx \<and> outcome = resultMapping (runHttpQuery srv ev ctx req)"
  using assms
  by (auto simp add: graphqlLambda_def Let_def split: option.splits if_splits sum.splits)

lemma graphqlLambda_calls:
  assumes "graphqlLambda srv options ev ctx = (outcome, calls)"
    and "x \<in> set calls"
  shows "\<exists>req. x = RunHttpQuery ev ctx req"
  using assms
  by (auto simp add: graphqlLambda_def Let_def split: option.splits if_splits sum.splits)

lemma handleFileUploads_calls:
  assumes "handleFileUploads srv event hdrs config = (r, event1, calls1)"
    and "x \<in> set calls1"
  shows "\<exists>process ct.
           processFileUploads srv = Some process
         \<and> body event \<noteq> Null
         \<and> Headers_get hdrs ''content-type'' = Some ct
         \<and> startsWith ct ''multipart/form-data''
         \<and> event1 = event\<lparr>headers := obj_set (headers event) ''content-type'' ct\<rparr>
         \<and> x = ProcessFileUploads
                  \<lparr>chunk = body event,
                   chunk_encoding = (if isBase64Encoded event then base64 else ascii),
                   request_headers = obj_set (headers event) ''content-type'' ct\<rparr> config
         \<and> calls1 = [x]
         \<and> r = map_sum id Processed
                  (process \<lparr>chunk = body event,
                            chunk_encoding = (if isBase64Encoded event then base64 else ascii),
                            request_headers = obj_set (headers event) ''content-type'' ct\<rparr>
                     config)"
proof (cases "Headers_get hdrs ''content-type''")
  case None
  with assms show ?thesis
    by (auto simp add: handleFileUploads_def Let_def split: option.splits if_splits)
next
  case (Some ct)
  with assms show ?thesis
    by (auto simp add: handleFileUploads_def Let_def split: option.splits if_splits)
qed

lemma handleFileUploads_multipart:
  assumes "processFileUploads srv = Some process"
    and "body event \<noteq> Null"
    and "Headers_get hdrs ''content-type'' = Some ct"
    and "startsWith ct ''multipart/form-data''"
  shows "handleFileUploads srv event hdrs config =
           (map_sum id Processed
              (process \<lparr>chunk = body event,
                        chunk_encoding = (if isBase64Encoded event then base64 else ascii),
                        request_headers = obj_set (headers event) ''content-type'' ct\<rparr>
                 config),
            event\<lparr>headers := obj_set (headers event) ''content-type'' ct\<rparr>,
            [ProcessFileUploads
               \<lparr>chunk = body event,
                chunk_encoding = (if isBase64Encoded event then base64 else ascii),
                request_headers = obj_set (headers event) ''content-type'' ct\<rparr> config])"
proof -
  from assms(4) have "ct \<noteq> []"
    using startsWith_Nil [of "''multipart/form-data''"] by auto
  with assms show ?thesis
    by (simp add: handleFileUploads_def Let_def)
qed

lemma handleFileUploads_unchanged:
  assumes "processFileUploads srv = None \<or> body event = Null
           \<or> (\<forall>ct. Headers_get hdrs ''content-type'' = Some ct
                    \<longrightarrow> \<not> startsWith ct ''multipart/form-data'')"
  shows "handleFileUploads srv event hdrs config = (Inr (body event), event, [])"
  using assms
  by (cases "Headers_get hdrs ''content-type''")
     (auto simp add: handleFileUploads_def Let_def split: option.splits)

text \<open>
  The ways \<open>resultPromise\<close> can settle, as an elimination rule: on a start-up that
  failed, on an upload that failed, on options that failed, or with what the bridge
  returned for the event the upload step left.
\<close>

lemma resultPromise_cases:
  assumes "resultPromise opts srv event ctx = (outcome, calls)"
  obtains
    (start) e where "willStart srv = Some e" "outcome = Inl e" "calls = [AwaitWillStart]"
  | (upload) e event1 calls1 where "willStart srv = None"
      "handleFileUploads srv event (new_Headers (headers event))
         (uploadsConfig_or_empty (uploadsConfig opts)) = (Inl e, event1, calls1)"
      "outcome = Inl (Value (formatApolloErrors srv [e]))"
      "calls = AwaitWillStart # calls1 @ [FormatApolloErrors [e]]"
  | (options) newBody event1 calls1 e where "willStart srv = None"
      "handleFileUploads srv event (new_Headers (headers event))
         (uploadsConfig_or_empty (uploadsConfig opts)) = (Inr newBody, event1, calls1)"
      "createGraphQLServerOptions srv (event1\<lparr>body := newBody\<rparr>) ctx = Inl e"
      "outcome = Inl e"
      "calls = AwaitWillStart # calls1
                 @ [CreateGraphQLServerOptions (event1\<lparr>body := newBody\<rparr>) ctx]"
  | (bridge) newBody event1 calls1 options outcome2 calls2 where "willStart srv = None"
      "handleFileUploads srv event (new_Headers (headers event))
         (uploadsConfig_or_empty (uploadsConfig opts)) = (Inr newBody, event1, calls1)"
      "createGraphQLServerOptions srv (event1\<lparr>body := newBody\<rparr>) ctx = Inr options"
      "graphqlLambda srv options (event1\<lparr>body := newBody\<rparr>) ctx = (outcome2, calls2)"
      "outcome = map_sum id
                   (\<lambda>result. result\<lparr>result_headers :=
                      Some (spread (spread_opt (result_headers result))
                              (requestCorsHeadersObject (cors opts) event))\<rparr>) outcome2"
      "calls = AwaitWillStart # calls1
                 @ [CreateGraphQLServerOptions (event1\<lparr>body := newBody\<rparr>) ctx] @ calls2"
proof (cases "willStart srv")
  case (Some e)
  with assms start show ?thesis by (simp add: resultPromise_def)
next
  case None
  obtain r event1 calls1 where
    h: "handleFileUploads srv event (new_Headers (headers event))
          (uploadsConfig_or_empty (uploadsConfig opts)) = (r, event1, calls1)"
    by (rule prod_cases3)
  show ?thesis
  proof (cases r)
    case (Inl e)
    with assms None h upload show ?thesis by (simp add: resultPromise_def)
  next
    case (Inr newBody)
    show ?thesis
    proof (cases "createGraphQLServerOptions srv (event1\<lparr>body := newBody\<rparr>) ctx")
      case (Inl e)
      with assms None h Inr options show ?thesis by (simp add: resultPromise_def Let_def)
    next
      case o: (Inr options)
      obtain outcome2 calls2 where
        g: "graphqlLambda srv options (event1\<lparr>body := newBody\<rparr>) ctx = (outcome2, calls2)"
        by (cases "graphqlLambda srv options (event1\<lparr>body := newBody\<rparr>) ctx")
      from assms None h Inr o g
      have "outcome = map_sum id
                   (\<lambda>result. result\<lparr>result_headers :=
                      Some (spread (spread_opt (result_headers result))
                              (requestCorsHeadersObject (cors opts) event))\<rparr>) outcome2
            \<and> calls = AwaitWillStart # calls1
                 @ [CreateGraphQLServerOptions (event1\<lparr>body := newBody\<rparr>) ctx] @ calls2"
        by (cases outcome2) (auto simp add: resultPromise_def Let_def)
      with None h Inr o g bridge show ?thesis by blast
    qed
  qed
qed

text \<open>
  A call other than the rendering of the tool page is made on the primary path only: the
  handler then delivers what \<open>resultPromise\<close> settles with, run on the context the
  handler leaves.
\<close>

lemma handler_primary:
  assumes "handler opts srv event ctx = (delivery, ctx1, calls)"
    and "x \<in> set calls"
    and "\<And>pageOptions. x \<noteq> RenderPlaygroundPage pageOptions"
  shows "resultPromise opts srv event ctx1 = (delivered delivery, calls)"
proof -
  obtain outcome calls' where rp: "resultPromise opts srv event
        (if \<not> async opts then ctx\<lparr>callbackWaitsForEmptyEventLoop := False\<rparr> else ctx)
          = (outcome, calls')"
    by (cases "resultPromise opts srv event
        (if \<not> async opts then ctx\<lparr>callbackWaitsForEmptyEventLoop := False\<rparr> else ctx)")
  from assms rp show ?thesis
    by (auto simp add: handler_def Let_def split: if_splits)
qed

lemma resultPromise_engine_call:
  assumes "resultPromise opts srv event ctx = (outcome, calls)"
    and "RunHttpQuery ev c req \<in> set calls"
  shows "outcome = map_sum id
                     (\<lambda>result. result\<lparr>result_headers :=
                        Some (spread (spread_opt (result_headers result))
                                (requestCorsHeadersObject (cors opts) event))\<rparr>)
                     (resultMapping (runHttpQuery srv ev c req))
         \<and> CreateGraphQLServerOptions ev c \<in> set calls"
  using assms(1)
proof (cases rule: resultPromise_cases)
  case (start e)
  with assms(2) show ?thesis by simp
next
  case (upload e event1 calls1)
  with assms(2) have "RunHttpQuery ev c req \<in> set calls1" by simp
  with upload(2) show ?thesis using handleFileUploads_calls by blast
next
  case (options newBody event1 calls1 e)
  with assms(2) have "RunHttpQuery ev c req \<in> set calls1" by simp
  with options(2) show ?thesis using handleFileUploads_calls by blast
next
  case (bridge newBody event1 calls1 options outcome2 calls2)
  have "RunHttpQuery ev c req \<notin> set calls1"
    using bridge(2) handleFileUploads_calls by blast
  with assms(2) bridge(6) have "RunHttpQuery ev c req \<in> set calls2" by simp
  with bridge(4) have "ev = event1\<lparr>body := newBody\<rparr> \<and> c = ctx
      \<and> outcome2 = resultMapping (runHttpQuery srv (event1\<lparr>body := newBody\<rparr>) ctx req)"
    by (rule graphqlLambda_engine_call)
  with bridge(5,6) show ?thesis by simp
qed

text \<open>
  Claim C4, as amended. When the engine was called and answered, the response delivered
  has status 200, the engine's body, and as headers the engine's headers with the
  request's CORS headers written over them: every CORS header is there with its CORS
  value, also when the engine set a header of the same name, and every other header of
  the engine is there with the engine's value.
\<close>

theorem C4_engine_and_cors_headers:
  assumes "handler opts srv event ctx = (delivery, ctx1, calls)"
    and "RunHttpQuery ev c req \<in> set calls"
    and "runHttpQuery srv ev c req = Inr (graphqlResponse, engineHeaders)"
  shows "\<exists>hs. delivered delivery
                = Inr \<lparr>result_body = graphqlResponse, statusCode = 200,
                       result_headers = Some hs\<rparr>
             \<and> (\<forall>k. obj_get hs k
                       = (case obj_get (requestCorsHeadersObject (cors opts) event) k of
                            Some v \<Rightarrow> Some v
                          | None \<Rightarrow> obj_get (spread_opt engineHeaders) k))"
proof -
  have "resultPromise opts srv event ctx1 = (delivered delivery, calls)"
    using assms(1,2) by (rule handler_primary) simp
  then have "delivered delivery
               = map_sum id
                   (\<lambda>result. result\<lparr>result_headers :=
                      Some (spread (spread_opt (result_headers result))
                              (requestCorsHeadersObject (cors opts) event))\<rparr>)
                   (resultMapping (runHttpQuery srv ev c req))"
    using assms(2) resultPromise_engine_call by blast
  then have "delivered delivery
               = Inr \<lparr>result_body = graphqlResponse, statusCode = 200,
                      result_headers =
                        Some (spread (spread_opt engineHeaders)
                                (requestCorsHeadersObject (cors opts) event))\<rparr>"
    by (simp add: assms(3))
  moreover have "\<forall>k. obj_get (spread (spread_opt engineHeaders)
                                (requestCorsHeadersObject (cors opts) event)) k
                       = (case obj_get (requestCorsHeadersObject (cors opts) event) k of
                            Some v \<Rightarrow> Some v
                          | None \<Rightarrow> obj_get (spread_opt engineHeaders) k)"
    by (simp add: obj_get_spread distinct_requestCorsHeadersObject)
  ultimately show ?thesis by blast
qed

theorem C4_witness:
  "\<exists>hs. delivered (fst (handler demoOptions demoServer
                          (demoEvent ''POST'' [] (Str ''query'')) demoContext))
          = Inr \<lparr>result_body = ''data: not waiting'', statusCode = 200,
                 result_headers = Some hs\<rparr>
       \<and> obj_get hs ''Content-Type'' = Some ''application/json''
       \<and> obj_get hs ''access-control-allow-methods'' = Some ''GET,POST''
       \<and> obj_get hs ''access-control-allow-origin'' = Some ''https://cors.example''"
proof -
  let ?event = "demoEvent ''POST'' [] (Str ''query'')"
  let ?ctx = "\<lparr>callbackWaitsForEmptyEventLoop = False\<rparr>"
  let ?req = "\<lparr>query_method = ''POST'', query_options = ''options'',
               query = FromBody (Str ''query''), request_url = Some ''/graphql'',
               request_method = ''POST'', request_Headers = []\<rparr>"
  have 1: "handler demoOptions demoServer ?event demoContext
             = (fst (handler demoOptions demoServer ?event demoContext),
                fst (snd (handler demoOptions demoServer ?event demoContext)),
                snd (snd (handler demoOptions demoServer ?event demoContext)))"
    by simp
  have 2: "RunHttpQuery ?event ?ctx ?req
             \<in> set (snd (snd (handler demoOptions demoServer ?event demoContext)))"
    by code_simp
  have 3: "runHttpQuery demoServer ?event ?ctx ?req
             = Inr (''data: not waiting'',
                    Some [(''Content-Type'', ''application/json''),
                          (''access-control-allow-origin'', ''https://engine.example'')])"
    by code_simp
  obtain hs where
    d: "delivered (fst (handler demoOptions demoServer ?event demoContext))
          = Inr \<lparr>result_body = ''data: not waiting'', statusCode = 200,
                 result_headers = Some hs\<rparr>"
    and k: "\<And>k. obj_get hs k
              = (case obj_get (requestCorsHeadersObject (cors demoOptions) ?event) k of
                   Some v \<Rightarrow> Some v
                 | None \<Rightarrow>
                     obj_get (spread_opt
                       (Some [(''Content-Type'', ''application/json''),
                              (''access-control-allow-origin'', ''https://engine.example'')])) k)"
    using C4_engine_and_cors_headers [OF 1 2 3] by blast
  have c: "requestCorsHeadersObject (cors demoOptions) ?event
           = [(''access-control-allow-methods'', ''GET,POST''),
              (''access-control-allow-credentials'', ''true''),
              (''access-control-max-age'', ''600''),
              (''access-control-allow-origin'', ''https://cors.example'')]"
    by code_simp
  have e: "spread_opt (Some [(''Content-Type'', ''application/json''),
                             (''access-control-allow-origin'', ''https://engine.example'')])
           = [(''Content-Type'', ''application/json''),
              (''access-control-allow-origin'', ''https://engine.example'')]"
    by code_simp
  have "obj_get hs ''Content-Type'' = Some ''application/json''"
    using k [of "''Content-Type''"] by (simp add: c e obj_get_def)
  moreover have "obj_get hs ''access-control-allow-methods'' = Some ''GET,POST''"
    using k [of "''access-control-allow-methods''"] by (simp add: c e obj_get_def)
  moreover have "obj_get hs ''access-control-allow-origin'' = Some ''https://cors.example''"
    using k [of "''access-control-allow-origin''"] by (simp add: c e obj_get_def)
  ultimately show ?thesis using d by blast
qed

theorem C4_counterexample:
  "fst (graphqlLambda demoServer (Some ''options'') (demoEvent ''POST'' [] (Str ''query''))
          \<lparr>callbackWaitsForEmptyEventLoop = False\<rparr>)
     = Inr \<lparr>result_body = ''data: not waiting'', statusCode = 200,
            result_headers =
              Some [(''Content-Type'', ''application/json''),
                    (''access-control-allow-origin'', ''https://engine.example'')]\<rparr>
   \<and> delivered (fst (handler demoOptions demoServer
                       (demoEvent ''POST'' [] (Str ''query'')) demoContext))
     = Inr \<lparr>result_body = ''data: not waiting'', statusCode = 200,
            result_headers =
              Some [(''Content-Type'', ''application/json''),
                    (''access-control-allow-origin'', ''https://cors.example''),
                    (''access-control-allow-methods'', ''GET,POST''),
                    (''access-control-allow-credentials'', ''true''),
                    (''access-control-max-age'', ''600'')]\<rparr>"
  by code_simp

lemma resultPromise_options_call:
  assumes "resultPromise opts srv event ctx = (outcome, calls)"
    and "CreateGraphQLServerOptions ev c \<in> set calls"
  shows "\<exists>newBody event1 calls1.
           handleFileUploads srv event (new_Headers (headers event))
             (uploadsConfig_or_empty (uploadsConfig opts)) = (Inr newBody, event1, calls1)
         \<and> ev = event1\<lparr>body := newBody\<rparr> \<and> c = ctx"
  using assms(1)
proof (cases rule: resultPromise_cases)
  case (start e)
  with assms(2) show ?thesis by simp
next
  case (upload e event1 calls1)
  with assms(2) have "CreateGraphQLServerOptions ev c \<in> set calls1" by simp
  with upload(2) show ?thesis using handleFileUploads_calls by blast
next
  case (options newBody event1 calls1 e)
  have "CreateGraphQLServerOptions ev c \<notin> set calls1"
    using options(2) handleFileUploads_calls by blast
  with assms(2) options(5) have "ev = event1\<lparr>body := newBody\<rparr> \<and> c = ctx" by simp
  with options(2) show ?thesis by blast
next
  case (bridge newBody event1 calls1 options outcome2 calls2)
  have "CreateGraphQLServerOptions ev c \<notin> set calls1"
    using bridge(2) handleFileUploads_calls by blast
  moreover have "CreateGraphQLServerOptions ev c \<notin> set calls2"
    using bridge(4) graphqlLambda_calls by blast
  ultimately have "ev = event1\<lparr>body := newBody\<rparr> \<and> c = ctx"
    using assms(2) bridge(6) by simp
  with bridge(2) show ?thesis by blast
qed

text \<open>
  Claim C7, as amended. The event handed on after the upload step (the argument of
  \<open>createGraphQLServerOptions\<close>, and the event every engine call of the bridge
  carries): when the upload processor is available, the body is not null and the content
  type starts with \<open>multipart/form-data\<close>, its body is what the processor resolved
  to, computed from the original body read as base64 when the flag is set; when the
  processor is not available, the body is null or the content type is absent or starts
  otherwise, it is the event as it came, body included.
\<close>

theorem C7_upload_preprocessing:
  assumes "handler opts srv event ctx = (delivery, ctx1, calls)"
    and "CreateGraphQLServerOptions bridgeEvent c \<in> set calls"
  shows "(processFileUploads srv = Some process \<and> body event \<noteq> Null
            \<and> Headers_get (new_Headers (headers event)) ''content-type'' = Some ct
            \<and> startsWith ct ''multipart/form-data''
          \<longrightarrow> (\<exists>out.
                 process \<lparr>chunk = body event,
                          chunk_encoding = (if isBase64Encoded event then base64 else ascii),
                          request_headers = obj_set (headers event) ''content-type'' ct\<rparr>
                   (uploadsConfig_or_empty (uploadsConfig opts)) = Inr out
               \<and> body bridgeEvent = Processed out))
       \<and> (processFileUploads srv = None \<or> body event = Null
            \<or> (\<forall>t. Headers_get (new_Headers (headers event)) ''content-type'' = Some t
                     \<longrightarrow> \<not> startsWith t ''multipart/form-data'')
          \<longrightarrow> bridgeEvent = event)
       \<and> (\<forall>ev' c' req. RunHttpQuery ev' c' req \<in> set calls \<longrightarrow> ev' = bridgeEvent)"
proof -
  have rp: "resultPromise opts srv event ctx1 = (delivered delivery, calls)"
    using assms by (rule handler_primary) simp
  then obtain newBody event1 calls1 where
    h: "handleFileUploads srv event (new_Headers (headers event))
          (uploadsConfig_or_empty (uploadsConfig opts)) = (Inr newBody, event1, calls1)"
    and b: "bridgeEvent = event1\<lparr>body := newBody\<rparr>"
    using assms(2) resultPromise_options_call by blast
  have multipart: "\<exists>out.
                 process \<lparr>chunk = body event,
                          chunk_encoding = (if isBase64Encoded event then base64 else ascii),
                          request_headers = obj_set (headers event) ''content-type'' ct\<rparr>
                   (uploadsConfig_or_empty (uploadsConfig opts)) = Inr out
               \<and> body bridgeEvent = Processed out"
    if "processFileUploads srv = Some process \<and> body event \<noteq> Null
            \<and> Headers_get (new_Headers (headers event)) ''content-type'' = Some ct
            \<and> startsWith ct ''multipart/form-data''"
  proof -
    from that h
    have "Inr newBody = map_sum id Processed
            (process \<lparr>chunk = body event,
                      chunk_encoding = (if isBase64Encoded event then base64 else ascii),
                      request_headers = obj_set (headers event) ''content-type'' ct\<rparr>
               (uploadsConfig_or_empty (uploadsConfig opts)))"
      by (simp add: handleFileUploads_multipart)
    then obtain out where
      "process \<lparr>chunk = body event,
                chunk_encoding = (if isBase64Encoded event then base64 else ascii),
                request_headers = obj_set (headers event) ''content-type'' ct\<rparr>
         (uploadsConfig_or_empty (uploadsConfig opts)) = Inr out"
      and "newBody = Processed out"
      by (cases "process \<lparr>chunk = body event,
                chunk_encoding = (if isBase64Encoded event then base64 else ascii),
                request_headers = obj_set (headers event) ''content-type'' ct\<rparr>
         (uploadsConfig_or_empty (uploadsConfig opts))") auto
    with b show ?thesis by simp
  qed
  have unchanged: "bridgeEvent = event"
    if "processFileUploads srv = None \<or> body event = Null
            \<or> (\<forall>t. Headers_get (new_Headers (headers event)) ''content-type'' = Some t
                     \<longrightarrow> \<not> startsWith t ''multipart/form-data'')"
  proof -
    from that have "handleFileUploads srv event (new_Headers (headers event))
          (uploadsConfig_or_empty (uploadsConfig opts)) = (Inr (body event), event, [])"
      by (rule handleFileUploads_unchanged)
    with h b show ?thesis by auto
  qed
  have engine: "ev' = bridgeEvent" if "RunHttpQuery ev' c' req \<in> set calls" for ev' c' req
  proof -
    from rp that have "CreateGraphQLServerOptions ev' c' \<in> set calls"
      using resultPromise_engine_call by blast
    with rp obtain newBody' event1' calls1' where
      "handleFileUploads srv event (new_Headers (headers event))
          (uploadsConfig_or_empty (uploadsConfig opts)) = (Inr newBody', event1', calls1')"
      and "ev' = event1'\<lparr>body := newBody'\<rparr>"
      using resultPromise_options_call by blast
    with h b show ?thesis by simp
  qed
  from multipart unchanged engine show ?thesis by blast
qed

theorem C7_witness:
  "CreateGraphQLServerOptions
     ((demoEvent ''POST'' [(''content-type'', ''multipart/form-data; boundary=x'')]
         (Str ''parts''))\<lparr>body := Processed ''operations''\<rparr>)
     \<lparr>callbackWaitsForEmptyEventLoop = False\<rparr>
     \<in> set (snd (snd (handler demoOptions demoServer
                (demoEvent ''POST'' [(''content-type'', ''multipart/form-data; boundary=x'')]
                   (Str ''parts'')) demoContext)))
   \<and> demoUploads
        \<lparr>chunk = Str ''parts'', chunk_encoding = ascii,
         request_headers = [(''content-type'', ''multipart/form-data; boundary=x'')]\<rparr>
        \<lparr>maxFieldSize = None, maxFileSize = None, maxFiles = None\<rparr> = Inr ''operations''
   \<and> CreateGraphQLServerOptions
       (demoEvent ''POST'' [(''content-type'', ''text/plain'')] (Str ''parts''))
       \<lparr>callbackWaitsForEmptyEventLoop = False\<rparr>
     \<in> set (snd (snd (handler demoOptions demoServer
                (demoEvent ''POST'' [(''content-type'', ''text/plain'')] (Str ''parts''))
                demoContext)))"
proof -
  let ?multipart = "demoEvent ''POST'' [(''content-type'', ''multipart/form-data; boundary=x'')]
                      (Str ''parts'')"
  let ?plain = "demoEvent ''POST'' [(''content-type'', ''text/plain'')] (Str ''parts'')"
  let ?ctx = "\<lparr>callbackWaitsForEmptyEventLoop = False\<rparr>"
  have m1: "handler demoOptions demoServer ?multipart demoContext
             = (fst (handler demoOptions demoServer ?multipart demoContext),
                fst (snd (handler demoOptions demoServer ?multipart demoContext)),
                snd (snd (handler demoOptions demoServer ?multipart demoContext)))"
    by simp
  have m2: "CreateGraphQLServerOptions (?multipart\<lparr>body := Processed ''operations''\<rparr>) ?ctx
              \<in> set (snd (snd (handler demoOptions demoServer ?multipart demoContext)))"
    by code_simp
  have m3: "processFileUploads demoServer = Some demoUploads \<and> body ?multipart \<noteq> Null
            \<and> Headers_get (new_Headers (headers ?multipart)) ''content-type''
                = Some ''multipart/form-data; boundary=x''
            \<and> startsWith ''multipart/form-data; boundary=x'' ''multipart/form-data''"
  proof -
    have "processFileUploads demoServer = Some demoUploads"
      by (simp add: demoServer_def)
    moreover have "body ?multipart \<noteq> Null"
      by (simp add: demoEvent_def)
    moreover have "Headers_get (new_Headers (headers ?multipart)) ''content-type''
                = Some ''multipart/form-data; boundary=x''"
      by code_simp
    moreover have "startsWith ''multipart/form-data; boundary=x'' ''multipart/form-data''"
      by code_simp
    ultimately show ?thesis by simp
  qed
  have p1: "handler demoOptions demoServer ?plain demoContext
             = (fst (handler demoOptions demoServer ?plain demoContext),
                fst (snd (handler demoOptions demoServer ?plain demoContext)),
                snd (snd (handler demoOptions demoServer ?plain demoContext)))"
    by simp
  have p2: "CreateGraphQLServerOptions ?plain ?ctx
              \<in> set (snd (snd (handler demoOptions demoServer ?plain demoContext)))"
    by code_simp
  have p3: "processFileUploads demoServer = None \<or> body ?plain = Null
            \<or> (\<forall>t. Headers_get (new_Headers (headers ?plain)) ''content-type'' = Some t
                     \<longrightarrow> \<not> startsWith t ''multipart/form-data'')"
  proof -
    have "Headers_get (new_Headers (headers ?plain)) ''content-type'' = Some ''text/plain''"
      by code_simp
    moreover have "\<not> startsWith ''text/plain'' ''multipart/form-data''"
      by code_simp
    ultimately show ?thesis by simp
  qed
  have u: "demoUploads
        \<lparr>chunk = Str ''parts'', chunk_encoding = ascii,
         request_headers = [(''content-type'', ''multipart/form-data; boundary=x'')]\<rparr>
        \<lparr>maxFieldSize = None, maxFileSize = None, maxFiles = None\<rparr> = Inr ''operations''"
    by code_simp
  show ?thesis
    using C7_upload_preprocessing [OF m1 m2] m3 C7_upload_preprocessing [OF p1 p2] p3 m2 u p2
    by - (intro conjI, assumption+)
qed

theorem C7_counterexample:
  "body (demoEvent ''POST'' [(''content-type'', ''multipart/form-data; boundary=x'')]
           (Str ''parts'')) = (Str ''parts'' :: string Body)
   \<and> Headers_get (new_Headers (headers
         (demoEvent ''POST'' [(''content-type'', ''multipart/form-data; boundary=x'')]
            (Str ''parts'' :: string Body)))) ''content-type''
       = Some ''multipart/form-data; boundary=x''
   \<and> startsWith ''multipart/form-data; boundary=x'' ''multipart/form-data''
   \<and> snd (snd (handler demoOptions (demoServer\<lparr>processFileUploads := None\<rparr>)
        (demoEvent ''POST'' [(''content-type'', ''multipart/form-data; boundary=x'')]
           (Str ''parts'')) demoContext))
       = [AwaitWillStart,
          CreateGraphQLServerOptions
            (demoEvent ''POST'' [(''content-type'', ''multipart/form-data; boundary=x'')]
               (Str ''parts''))
            \<lparr>callbackWaitsForEmptyEventLoop = False\<rparr>,
          RunHttpQuery
            (demoEvent ''POST'' [(''content-type'', ''multipart/form-data; boundary=x'')]
               (Str ''parts''))
            \<lparr>callbackWaitsForEmptyEventLoop = False\<rparr>
            \<lparr>query_method = ''POST'', query_options = ''options'',
             query = FromBody (Str ''parts''), request_url = Some ''/graphql'',
             request_method = ''POST'',
             request_Headers = [(''content-type'', ''multipart/form-data; boundary=x'')]\<rparr>]"
  by code_simp

subsection \<open>Errors\<close>

lemma resultMapping_other:
  "(\<And>code hs message. e \<noteq> HttpQueryError code hs message)
     \<Longrightarrow> resultMapping (Inl e) = Inl e"
  by (cases e) auto

lemma resultPromise_start_error:
  assumes "resultPromise opts srv event ctx = (outcome, calls)"
    and "willStart srv = Some e"
  shows "outcome = Inl e"
  using assms by (simp add: resultPromise_def)

lemma resultPromise_upload_error:
  assumes "resultPromise opts srv event ctx = (outcome, calls)"
    and "ProcessFileUploads req config \<in> set calls"
    and "processFileUploads srv = Some process"
    and "process req config = Inl e"
  shows "outcome = Inl (Value (formatApolloErrors srv [e]))
         \<and> calls = [AwaitWillStart, ProcessFileUploads req config, FormatApolloErrors [e]]"
  using assms(1)
proof (cases rule: resultPromise_cases)
  case (start e')
  with assms(2) show ?thesis by simp
next
  case (upload e' event1 calls1)
  with assms(2) have "ProcessFileUploads req config \<in> set calls1" by simp
  with upload(2) assms(3,4) have "calls1 = [ProcessFileUploads req config] \<and> e' = e"
    using handleFileUploads_calls
      [of srv event "new_Headers (headers event)" "uploadsConfig_or_empty (uploadsConfig opts)"
          "Inl e'" event1 calls1 "ProcessFileUploads req config"]
    by auto
  with upload(3,4) show ?thesis by simp
next
  case (options newBody event1 calls1 e')
  with assms(2) have "ProcessFileUploads req config \<in> set calls1" by simp
  with options(2) assms(3,4) show ?thesis
    using handleFileUploads_calls
      [of srv event "new_Headers (headers event)" "uploadsConfig_or_empty (uploadsConfig opts)"
          "Inr newBody" event1 calls1 "ProcessFileUploads req config"]
    by auto
next
  case (bridge newBody event1 calls1 options outcome2 calls2)
  have "ProcessFileUploads req config \<notin> set calls2"
    using bridge(4) graphqlLambda_calls by blast
  with assms(2) bridge(6) have "ProcessFileUploads req config \<in> set calls1" by simp
  with bridge(2) assms(3,4) show ?thesis
    using handleFileUploads_calls
      [of srv event "new_Headers (headers event)" "uploadsConfig_or_empty (uploadsConfig opts)"
          "Inr newBody" event1 calls1 "ProcessFileUploads req config"]
    by auto
qed

lemma resultPromise_options_error:
  assumes "resultPromise opts srv event ctx = (outcome, calls)"
    and "CreateGraphQLServerOptions ev c \<in> set calls"
    and "createGraphQLServerOptions srv ev c = Inl e"
  shows "outcome = Inl e"
proof -
  obtain newBody event1 calls1 where
    h: "handleFileUploads srv event (new_Headers (headers event))
          (uploadsConfig_or_empty (uploadsConfig opts)) = (Inr newBody, event1, calls1)"
    and ev: "ev = event1\<lparr>body := newBody\<rparr>" and c: "c = ctx"
    using assms(1,2) resultPromise_options_call by blast
  show ?thesis
    using assms(1)
  proof (cases rule: resultPromise_cases)
    case (start e')
    with assms(2) show ?thesis by simp
  next
    case (upload e' event1' calls1')
    with h show ?thesis by simp
  next
    case (options newBody' event1' calls1' e')
    with h ev c assms(3) show ?thesis by simp
  next
    case (bridge newBody' event1' calls1' options outcome2 calls2)
    with h ev c assms(3) show ?thesis by simp
  qed
qed

lemma resultPromise_bridge_result:
  assumes "resultPromise opts srv event ctx = (outcome, calls)"
    and "CreateGraphQLServerOptions ev c \<in> set calls"
    and "createGraphQLServerOptions srv ev c = Inr options"
    and "fst (graphqlLambda srv options ev c) = Inr result"
  shows "outcome = Inr (result\<lparr>result_headers :=
                          Some (spread (spread_opt (result_headers result))
                                  (requestCorsHeadersObject (cors opts) event))\<rparr>)"
proof -
  obtain newBody event1 calls1 where
    h: "handleFileUploads srv event (new_Headers (headers event))
          (uploadsConfig_or_empty (uploadsConfig opts)) = (Inr newBody, event1, calls1)"
    and ev: "ev = event1\<lparr>body := newBody\<rparr>" and c: "c = ctx"
    using assms(1,2) resultPromise_options_call by blast
  show ?thesis
    using assms(1)
  proof (cases rule: resultPromise_cases)
    case (start e')
    with assms(2) show ?thesis by simp
  next
    case (upload e' event1' calls1')
    with h show ?thesis by simp
  next
    case (options newBody' event1' calls1' e')
    with h ev c assms(3) show ?thesis by simp
  next
    case (bridge newBody' event1' calls1' options' outcome2 calls2)
    with h ev c assms(3,4) show ?thesis by simp
  qed
qed

text \<open>
  Claim C8. Of the errors that can arise on the primary path, only a structured query
  error becomes a response: the bridge maps an \<open>HttpQueryError\<close> of the engine to a
  result with its status code, its headers and its message (the first statement, about
  \<open>graphqlLambda\<close>), and the handler delivers that result with the request's CORS
  headers written over its headers. An error of the upload processor is given to
  \<open>formatApolloErrors\<close> and what that returns is thrown; an error of the engine that
  is no \<open>HttpQueryError\<close>, a failed start-up and failed options are thrown as they
  are. A thrown value is what the promise rejects with, or what the callback receives as
  its error. Whatever result the bridge returns, the answers to a missing body and to a
  JSON body that does not parse among them, is delivered as a response, with the
  request's CORS headers written over its headers (the last statement).
\<close>

theorem C8_error_propagation:
  assumes "handler opts srv event ctx = (delivery, ctx1, calls)"
  shows "(graphqlLambda srv options bridgeEvent bridgeCtx = (bridgeOutcome, bridgeCalls)
            \<and> RunHttpQuery ev c req \<in> set bridgeCalls
            \<and> runHttpQuery srv ev c req = Inl (HttpQueryError code hs message)
          \<longrightarrow> bridgeOutcome
                = Inr \<lparr>result_body = message, statusCode = code, result_headers = hs\<rparr>)
       \<and> (RunHttpQuery ev c req \<in> set calls
            \<and> runHttpQuery srv ev c req = Inl (HttpQueryError code hs message)
          \<longrightarrow> delivered delivery
                = Inr \<lparr>result_body = message, statusCode = code,
                       result_headers =
                         Some (spread (spread_opt hs)
                                 (requestCorsHeadersObject (cors opts) event))\<rparr>)
       \<and> (RunHttpQuery ev c req \<in> set calls
            \<and> runHttpQuery srv ev c req = Inl e
            \<and> (\<forall>code' hs' message'. e \<noteq> HttpQueryError code' hs' message')
          \<longrightarrow> delivered delivery = Inl e)
       \<and> (ProcessFileUploads uploadRequest config \<in> set calls
            \<and> processFileUploads srv = Some process
            \<and> process uploadRequest config = Inl e
          \<longrightarrow> delivered delivery = Inl (Value (formatApolloErrors srv [e]))
              \<and> calls = [AwaitWillStart, ProcessFileUploads uploadRequest config,
                          FormatApolloErrors [e]])
       \<and> (AwaitWillStart \<in> set calls \<and> willStart srv = Some e
          \<longrightarrow> delivered delivery = Inl e)
       \<and> (CreateGraphQLServerOptions ev c \<in> set calls
            \<and> createGraphQLServerOptions srv ev c = Inl e
          \<longrightarrow> delivered delivery = Inl e)
       \<and> (CreateGraphQLServerOptions ev c \<in> set calls
            \<and> createGraphQLServerOptions srv ev c = Inr options
            \<and> fst (graphqlLambda srv options ev c) = Inr result
          \<longrightarrow> delivered delivery
                = Inr (result\<lparr>result_headers :=
                         Some (spread (spread_opt (result_headers result))
                                 (requestCorsHeadersObject (cors opts) event))\<rparr>))"
proof -
  have bridge: "graphqlLambda srv options bridgeEvent bridgeCtx = (bridgeOutcome, bridgeCalls)
            \<and> RunHttpQuery ev c req \<in> set bridgeCalls
            \<and> runHttpQuery srv ev c req = Inl (HttpQueryError code hs message)
          \<longrightarrow> bridgeOutcome
                = Inr \<lparr>result_body = message, statusCode = code, result_headers = hs\<rparr>"
    using graphqlLambda_engine_call
      [of srv options bridgeEvent bridgeCtx bridgeOutcome bridgeCalls ev c req]
    by auto
  have primary: "resultPromise opts srv event ctx1 = (delivered delivery, calls)"
    if "x \<in> set calls" and "\<And>pageOptions. x \<noteq> RenderPlaygroundPage pageOptions" for x
    using assms that by (rule handler_primary)
  have structured: "RunHttpQuery ev c req \<in> set calls
            \<and> runHttpQuery srv ev c req = Inl (HttpQueryError code hs message)
          \<longrightarrow> delivered delivery
                = Inr \<lparr>result_body = message, statusCode = code,
                       result_headers =
                         Some (spread (spread_opt hs)
                                 (requestCorsHeadersObject (cors opts) event))\<rparr>"
  proof
    assume a: "RunHttpQuery ev c req \<in> set calls
            \<and> runHttpQuery srv ev c req = Inl (HttpQueryError code hs message)"
    then have "resultPromise opts srv event ctx1 = (delivered delivery, calls)"
      using primary [of "RunHttpQuery ev c req"] by simp
    with a show "delivered delivery
                = Inr \<lparr>result_body = message, statusCode = code,
                       result_headers =
                         Some (spread (spread_opt hs)
                                 (requestCorsHeadersObject (cors opts) event))\<rparr>"
      using resultPromise_engine_call
        [of opts srv event ctx1 "delivered delivery" calls ev c req]
      by simp
  qed
  have other: "RunHttpQuery ev c req \<in> set calls
            \<and> runHttpQuery srv ev c req = Inl e
            \<and> (\<forall>code' hs' message'. e \<noteq> HttpQueryError code' hs' message')
          \<longrightarrow> delivered delivery = Inl e"
  proof
    assume a: "RunHttpQuery ev c req \<in> set calls
            \<and> runHttpQuery srv ev c req = Inl e
            \<and> (\<forall>code' hs' message'. e \<noteq> HttpQueryError code' hs' message')"
    then have "resultPromise opts srv event ctx1 = (delivered delivery, calls)"
      using primary [of "RunHttpQuery ev c req"] by simp
    moreover from a have "resultMapping (Inl e) = Inl e"
      by (simp add: resultMapping_other)
    ultimately show "delivered delivery = Inl e"
      using a resultPromise_engine_call
        [of opts srv event ctx1 "delivered delivery" calls ev c req]
      by simp
  qed
  have upload: "ProcessFileUploads uploadRequest config \<in> set calls
            \<and> processFileUploads srv = Some process
            \<and> process uploadRequest config = Inl e
          \<longrightarrow> delivered delivery = Inl (Value (formatApolloErrors srv [e]))
              \<and> calls = [AwaitWillStart, ProcessFileUploads uploadRequest config,
                          FormatApolloErrors [e]]"
  proof
    assume a: "ProcessFileUploads uploadRequest config \<in> set calls
            \<and> processFileUploads srv = Some process
            \<and> process uploadRequest config = Inl e"
    then have "resultPromise opts srv event ctx1 = (delivered delivery, calls)"
      using primary [of "ProcessFileUploads uploadRequest config"] by simp
    with a show "delivered delivery = Inl (Value (formatApolloErrors srv [e]))
              \<and> calls = [AwaitWillStart, ProcessFileUploads uploadRequest config,
                          FormatApolloErrors [e]]"
      using resultPromise_upload_error by blast
  qed
  have start: "AwaitWillStart \<in> set calls \<and> willStart srv = Some e
          \<longrightarrow> delivered delivery = Inl e"
  proof
    assume a: "AwaitWillStart \<in> set calls \<and> willStart srv = Some e"
    then have "resultPromise opts srv event ctx1 = (delivered delivery, calls)"
      using primary [of AwaitWillStart] by simp
    with a show "delivered delivery = Inl e"
      using resultPromise_start_error by blast
  qed
  have options: "CreateGraphQLServerOptions ev c \<in> set calls
            \<and> createGraphQLServerOptions srv ev c = Inl e
          \<longrightarrow> delivered delivery = Inl e"
  proof
    assume a: "CreateGraphQLServerOptions ev c \<in> set calls
            \<and> createGraphQLServerOptions srv ev c = Inl e"
    then have "resultPromise opts srv event ctx1 = (delivered delivery, calls)"
      using primary [of "CreateGraphQLServerOptions ev c"] by simp
    with a show "delivered delivery = Inl e"
      using resultPromise_options_error by blast
  qed
  have recovered: "CreateGraphQLServerOptions ev c \<in> set calls
            \<and> createGraphQLServerOptions srv ev c = Inr options
            \<and> fst (graphqlLambda srv options ev c) = Inr result
          \<longrightarrow> delivered delivery
                = Inr (result\<lparr>result_headers :=
                         Some (spread (spread_opt (result_headers result))
                                 (requestCorsHeadersObject (cors opts) event))\<rparr>)"
  proof
    assume a: "CreateGraphQLServerOptions ev c \<in> set calls
            \<and> createGraphQLServerOptions srv ev c = Inr options
            \<and> fst (graphqlLambda srv options ev c) = Inr result"
    then have "resultPromise opts srv event ctx1 = (delivered delivery, calls)"
      using primary [of "CreateGraphQLServerOptions ev c"] by simp
    with a show "delivered delivery
                = Inr (result\<lparr>result_headers :=
                         Some (spread (spread_opt (result_headers result))
                                 (requestCorsHeadersObject (cors opts) event))\<rparr>)"
      using resultPromise_bridge_result by blast
  qed
  show ?thesis
    using bridge structured other upload start options recovered
    by - (intro conjI, assumption+)
qed

theorem C8_witness:
  "fst (graphqlLambda demoServer (Some ''options'') (demoEvent ''POST'' [] (Str ''forbidden''))
          \<lparr>callbackWaitsForEmptyEventLoop = False\<rparr>)
     = Inr \<lparr>result_body = ''Forbidden'', statusCode = 403,
            result_headers = Some [(''x-reason'', ''policy'')]\<rparr>
   \<and> delivered (fst (handler demoOptions demoServer
                       (demoEvent ''POST'' [] (Str ''forbidden'')) demoContext))
     = Inr \<lparr>result_body = ''Forbidden'', statusCode = 403,
            result_headers =
              Some (spread (spread_opt (Some [(''x-reason'', ''policy'')]))
                      (requestCorsHeadersObject (cors demoOptions)
                         (demoEvent ''POST'' [] (Str ''forbidden''))))\<rparr>
   \<and> delivered (fst (handler demoOptions demoServer
                       (demoEvent ''POST'' [] (Str ''crash'')) demoContext))
     = Inl (Value ''boom'')
   \<and> delivered (fst (handler demoOptions demoServer
                       (demoEvent ''POST'' [(''content-type'', ''multipart/form-data'')]
                          (Str ''bad'')) demoContext))
     = Inl (Value (formatApolloErrors demoServer [Error ''upload failed'']))
   \<and> delivered (fst (handler demoOptions (demoServer\<lparr>willStart := Some (Error ''no start'')\<rparr>)
                       (demoEvent ''POST'' [] (Str ''query'')) demoContext))
     = Inl (Error ''no start'')
   \<and> delivered (fst (handler demoOptions
                       (demoServer\<lparr>createGraphQLServerOptions :=
                                      (\<lambda>ev c. Inl (Error ''no options''))\<rparr>)
                       (demoEvent ''POST'' [] (Str ''query'')) demoContext))
     = Inl (Error ''no options'')
   \<and> delivered (fst (handler demoOptions demoServer
                       (demoEvent ''POST'' [] (Str [])) demoContext))
     = Inr \<lparr>result_body = ''POST body missing.'', statusCode = 500,
            result_headers =
              Some (spread (spread_opt None)
                      (requestCorsHeadersObject (cors demoOptions)
                         (demoEvent ''POST'' [] (Str []))))\<rparr>"
proof -
  let ?ctx = "\<lparr>callbackWaitsForEmptyEventLoop = False\<rparr>"
  let ?req = "\<lambda>q. \<lparr>query_method = ''POST'', query_options = ''options'',
               query = FromBody (Str q), request_url = Some ''/graphql'',
               request_method = ''POST'', request_Headers = []\<rparr>"
  have pair: "\<And>srv ev. handler demoOptions srv ev demoContext
                = (fst (handler demoOptions srv ev demoContext),
                   fst (snd (handler demoOptions srv ev demoContext)),
                   snd (snd (handler demoOptions srv ev demoContext)))"
    by simp
  let ?forbidden = "demoEvent ''POST'' [] (Str ''forbidden'')"
  have f0: "graphqlLambda demoServer (Some ''options'') ?forbidden ?ctx
              = (fst (graphqlLambda demoServer (Some ''options'') ?forbidden ?ctx),
                 snd (graphqlLambda demoServer (Some ''options'') ?forbidden ?ctx))"
    by simp
  have f1: "RunHttpQuery ?forbidden ?ctx (?req ''forbidden'')
              \<in> set (snd (graphqlLambda demoServer (Some ''options'') ?forbidden ?ctx))"
    by code_simp
  have f2: "RunHttpQuery ?forbidden ?ctx (?req ''forbidden'')
              \<in> set (snd (snd (handler demoOptions demoServer ?forbidden demoContext)))"
    by code_simp
  have f3: "runHttpQuery demoServer ?forbidden ?ctx (?req ''forbidden'')
              = Inl (HttpQueryError 403 (Some [(''x-reason'', ''policy'')]) ''Forbidden'')"
    by code_simp
  note w1 = C8_error_propagation [OF pair, THEN conjunct1, THEN mp,
      OF conjI [OF f0 conjI [OF f1 f3]]]
  note w2 = C8_error_propagation [OF pair, THEN conjunct2, THEN conjunct1, THEN mp,
      OF conjI [OF f2 f3]]
  let ?crash = "demoEvent ''POST'' [] (Str ''crash'')"
  have c2: "RunHttpQuery ?crash ?ctx (?req ''crash'')
              \<in> set (snd (snd (handler demoOptions demoServer ?crash demoContext)))"
    by code_simp
  have c3: "runHttpQuery demoServer ?crash ?ctx (?req ''crash'') = Inl (Value ''boom'')"
    by code_simp
  have c4: "\<forall>code' hs' message'. Value ''boom'' \<noteq> HttpQueryError code' hs' message'"
    by simp
  note w3 = C8_error_propagation [OF pair, THEN conjunct2, THEN conjunct2, THEN conjunct1,
      THEN mp, OF conjI [OF c2 conjI [OF c3 c4]]]
  let ?bad = "demoEvent ''POST'' [(''content-type'', ''multipart/form-data'')] (Str ''bad'')"
  let ?upload = "\<lparr>chunk = Str ''bad'', chunk_encoding = ascii,
                  request_headers = [(''content-type'', ''multipart/form-data'')]\<rparr>"
  let ?config = "\<lparr>maxFieldSize = None, maxFileSize = None, maxFiles = None\<rparr>"
  have u1: "ProcessFileUploads ?upload ?config
              \<in> set (snd (snd (handler demoOptions demoServer ?bad demoContext)))"
    by code_simp
  have u2: "processFileUploads demoServer = Some demoUploads"
    by (simp add: demoServer_def)
  have u3: "demoUploads ?upload ?config = Inl (Error ''upload failed'')"
    by code_simp
  note w4 = C8_error_propagation [OF pair, THEN conjunct2, THEN conjunct2, THEN conjunct2,
      THEN conjunct1, THEN mp, OF conjI [OF u1 conjI [OF u2 u3]], THEN conjunct1]
  let ?query = "demoEvent ''POST'' [] (Str ''query'')"
  have s1: "AwaitWillStart
              \<in> set (snd (snd (handler demoOptions
                     (demoServer\<lparr>willStart := Some (Error ''no start'')\<rparr>) ?query demoContext)))"
    by code_simp
  have s2: "willStart (demoServer\<lparr>willStart := Some (Error ''no start'')\<rparr>)
              = Some (Error ''no start'')"
    by simp
  note w5 = C8_error_propagation [OF pair, THEN conjunct2, THEN conjunct2, THEN conjunct2,
      THEN conjunct2, THEN conjunct1, THEN mp, OF conjI [OF s1 s2]]
  have o1: "CreateGraphQLServerOptions ?query ?ctx
              \<in> set (snd (snd (handler demoOptions
                     (demoServer\<lparr>createGraphQLServerOptions :=
                                    (\<lambda>ev c. Inl (Error ''no options''))\<rparr>) ?query demoContext)))"
    by code_simp
  have o2: "createGraphQLServerOptions
              (demoServer\<lparr>createGraphQLServerOptions :=
                             (\<lambda>ev c. Inl (Error ''no options''))\<rparr>) ?query ?ctx
              = Inl (Error ''no options'')"
    by simp
  note w6 = C8_error_propagation [OF pair, THEN conjunct2, THEN conjunct2, THEN conjunct2,
      THEN conjunct2, THEN conjunct2, THEN conjunct1, THEN mp, OF conjI [OF o1 o2]]
  let ?empty = "demoEvent ''POST'' [] (Str [])"
  have r1: "CreateGraphQLServerOptions ?empty ?ctx
              \<in> set (snd (snd (handler demoOptions demoServer ?empty demoContext)))"
    by code_simp
  have r2: "createGraphQLServerOptions demoServer ?empty ?ctx = Inr (Some ''options'')"
    by (simp add: demoServer_def)
  have r3: "fst (graphqlLambda demoServer (Some ''options'') ?empty ?ctx)
              = Inr \<lparr>result_body = ''POST body missing.'', statusCode = 500,
                     result_headers = None\<rparr>"
    by code_simp
  note w7 = C8_error_propagation [OF pair, THEN conjunct2, THEN conjunct2, THEN conjunct2,
      THEN conjunct2, THEN conjunct2, THEN conjunct2, THEN mp,
      OF conjI [OF r1 conjI [OF r2 r3]]]
  have w8: "delivered (fst (handler demoOptions demoServer ?empty demoContext))
     = Inr \<lparr>result_body = ''POST body missing.'', statusCode = 500,
            result_headers =
              Some (spread (spread_opt None)
                      (requestCorsHeadersObject (cors demoOptions) ?empty))\<rparr>"
    using w7 by simp
  show ?thesis
    using w1 w2 w3 w4 w5 w6 w8 by - (intro conjI, assumption+)
qed

subsection \<open>The two modes\<close>

lemma resultPromise_async:
  "resultPromise (opts\<lparr>async := b\<rparr>) srv event ctx = resultPromise opts srv event ctx"
  by (auto simp add: resultPromise_def Let_def split: option.split prod.split sum.split)

lemma handler_callback:
  "handler (opts\<lparr>async := False\<rparr>) srv event ctx =
     (if httpMethod event = ''OPTIONS'' then
        (ViaCallback (Inr \<lparr>result_body = [], statusCode = 204,
                            result_headers =
                              Some (spread [] (requestCorsHeadersObject (cors opts) event))\<rparr>),
         ctx\<lparr>callbackWaitsForEmptyEventLoop := False\<rparr>, [])
      else if playgroundOptions srv \<noteq> None \<and> httpMethod event = ''GET''
              \<and> truthy_string (acceptHeader event)
              \<and> includes_str (the (acceptHeader event)) ''text/html''
      then
        (ViaCallback
           (Inr \<lparr>result_body =
                   renderPlaygroundPage srv
                     (playgroundRenderPageOptions (playgroundPath event)
                        (the (playgroundOptions srv))),
                 statusCode = 200,
                 result_headers =
                   Some (spread [(''Content-Type'', ''text/html'')]
                           (requestCorsHeadersObject (cors opts) event))\<rparr>),
         ctx,
         [RenderPlaygroundPage
            (playgroundRenderPageOptions (playgroundPath event) (the (playgroundOptions srv)))])
      else
        (ViaCallback
           (fst (resultPromise opts srv event (ctx\<lparr>callbackWaitsForEmptyEventLoop := False\<rparr>))),
         ctx\<lparr>callbackWaitsForEmptyEventLoop := False\<rparr>,
         snd (resultPromise opts srv event (ctx\<lparr>callbackWaitsForEmptyEventLoop := False\<rparr>))))"
  by (auto simp add: handler_def Let_def resultPromise_async split: prod.split)

lemma handler_promise:
  "handler (opts\<lparr>async := True\<rparr>) srv event ctx =
     (if httpMethod event = ''OPTIONS'' then
        (ViaPromise (Inr \<lparr>result_body = [], statusCode = 204,
                           result_headers =
                             Some (spread [] (requestCorsHeadersObject (cors opts) event))\<rparr>),
         ctx, [])
      else if playgroundOptions srv \<noteq> None \<and> httpMethod event = ''GET''
              \<and> truthy_string (acceptHeader event)
              \<and> includes_str (the (acceptHeader event)) ''text/html''
      then
        (ViaPromise
           (Inr \<lparr>result_body =
                   renderPlaygroundPage srv
                     (playgroundRenderPageOptions (playgroundPath event)
                        (the (playgroundOptions srv))),
                 statusCode = 200,
                 result_headers =
                   Some (spread [(''Content-Type'', ''text/html'')]
                           (requestCorsHeadersObject (cors opts) event))\<rparr>),
         ctx,
         [RenderPlaygroundPage
            (playgroundRenderPageOptions (playgroundPath event) (the (playgroundOptions srv)))])
      else
        (ViaPromise (fst (resultPromise opts srv event ctx)), ctx,
         snd (resultPromise opts srv event ctx)))"
  by (auto simp add: handler_def Let_def resultPromise_async split: prod.split)

text \<open>
  Claim C9, as amended. On every event, the callback mode delivers through the callback
  what the promise mode, run on the context with its flag
  \<open>callbackWaitsForEmptyEventLoop\<close> cleared, delivers as its promise: the same
  response (status, body, headers) or the same error, after the same calls. So the two
  modes deliver the same thing on a context whose flag is clear already. They differ in
  the delivery and in the flag, which the callback mode clears before the server and the
  engine are given the context.
\<close>

theorem C9_modes_agree:
  "delivered (fst (handler (opts\<lparr>async := False\<rparr>) srv event ctx))
     = delivered (fst (handler (opts\<lparr>async := True\<rparr>) srv event
                         (ctx\<lparr>callbackWaitsForEmptyEventLoop := False\<rparr>)))
   \<and> snd (snd (handler (opts\<lparr>async := False\<rparr>) srv event ctx))
     = snd (snd (handler (opts\<lparr>async := True\<rparr>) srv event
                   (ctx\<lparr>callbackWaitsForEmptyEventLoop := False\<rparr>)))
   \<and> fst (handler (opts\<lparr>async := False\<rparr>) srv event ctx)
     = ViaCallback (delivered (fst (handler (opts\<lparr>async := False\<rparr>) srv event ctx)))
   \<and> fst (handler (opts\<lparr>async := True\<rparr>) srv event ctx)
     = ViaPromise (delivered (fst (handler (opts\<lparr>async := True\<rparr>) srv event ctx)))
   \<and> (\<not> callbackWaitsForEmptyEventLoop ctx
        \<longrightarrow> delivered (fst (handler (opts\<lparr>async := False\<rparr>) srv event ctx))
              = delivered (fst (handler (opts\<lparr>async := True\<rparr>) srv event ctx)))"
proof -
  have same: "ctx\<lparr>callbackWaitsForEmptyEventLoop := False\<rparr> = ctx"
    if "\<not> callbackWaitsForEmptyEventLoop ctx"
    using that by simp
  have 1: "delivered (fst (handler (opts\<lparr>async := False\<rparr>) srv event ctx))
     = delivered (fst (handler (opts\<lparr>async := True\<rparr>) srv event
                         (ctx\<lparr>callbackWaitsForEmptyEventLoop := False\<rparr>)))"
    by (auto simp add: handler_callback handler_promise)
  have 2: "snd (snd (handler (opts\<lparr>async := False\<rparr>) srv event ctx))
     = snd (snd (handler (opts\<lparr>async := True\<rparr>) srv event
                   (ctx\<lparr>callbackWaitsForEmptyEventLoop := False\<rparr>)))"
    by (auto simp add: handler_callback handler_promise)
  have 3: "fst (handler (opts\<lparr>async := False\<rparr>) srv event ctx)
     = ViaCallback (delivered (fst (handler (opts\<lparr>async := False\<rparr>) srv event ctx)))"
    by (auto simp add: handler_callback)
  have 4: "fst (handler (opts\<lparr>async := True\<rparr>) srv event ctx)
     = ViaPromise (delivered (fst (handler (opts\<lparr>async := True\<rparr>) srv event ctx)))"
    by (auto simp add: handler_promise)
  have 5: "\<not> callbackWaitsForEmptyEventLoop ctx
        \<longrightarrow> delivered (fst (handler (opts\<lparr>async := False\<rparr>) srv event ctx))
              = delivered (fst (handler (opts\<lparr>async := True\<rparr>) srv event ctx))"
  proof
    assume "\<not> callbackWaitsForEmptyEventLoop ctx"
    then have e: "ctx\<lparr>callbackWaitsForEmptyEventLoop := False\<rparr> = ctx"
      by (rule same)
    show "delivered (fst (handler (opts\<lparr>async := False\<rparr>) srv event ctx))
              = delivered (fst (handler (opts\<lparr>async := True\<rparr>) srv event ctx))"
      using 1 unfolding e .
  qed
  show ?thesis
    using 1 2 3 4 5 by - (intro conjI, assumption+)
qed

theorem C9_witness:
  "\<not> callbackWaitsForEmptyEventLoop \<lparr>callbackWaitsForEmptyEventLoop = False\<rparr>
   \<and> delivered (fst (handler (demoOptions\<lparr>async := False\<rparr>) demoServer
                       (demoEvent ''POST'' [] (Str ''query''))
                       \<lparr>callbackWaitsForEmptyEventLoop = False\<rparr>))
     = delivered (fst (handler (demoOptions\<lparr>async := True\<rparr>) demoServer
                         (demoEvent ''POST'' [] (Str ''query''))
                         \<lparr>callbackWaitsForEmptyEventLoop = False\<rparr>))"
proof -
  have h: "\<not> callbackWaitsForEmptyEventLoop \<lparr>callbackWaitsForEmptyEventLoop = False\<rparr>"
    by simp
  note w = C9_modes_agree [THEN conjunct2, THEN conjunct2, THEN conjunct2, THEN conjunct2,
      THEN mp, OF h]
  show ?thesis
    using h w [of demoOptions demoServer "demoEvent ''POST'' [] (Str ''query'')"]
    by - (intro conjI, assumption+)
qed

theorem C9_counterexample:
  "delivered (fst (handler (demoOptions\<lparr>async := True\<rparr>) demoServer
                     (demoEvent ''POST'' [] (Str ''query'')) demoContext))
     = Inr \<lparr>result_body = ''data: waiting'', statusCode = 200,
            result_headers =
              Some [(''Content-Type'', ''application/json''),
                    (''access-control-allow-origin'', ''https://cors.example''),
                    (''access-control-allow-methods'', ''GET,POST''),
                    (''access-control-allow-credentials'', ''true''),
                    (''access-control-max-age'', ''600'')]\<rparr>
   \<and> delivered (fst (handler (demoOptions\<lparr>async := False\<rparr>) demoServer
                       (demoEvent ''POST'' [] (Str ''query'')) demoContext))
     = Inr \<lparr>result_body = ''data: not waiting'', statusCode = 200,
            result_headers =
              Some [(''Content-Type'', ''application/json''),
                    (''access-control-allow-origin'', ''https://cors.example''),
                    (''access-control-allow-methods'', ''GET,POST''),
                    (''access-control-allow-credentials'', ''true''),
                    (''access-control-max-age'', ''600'')]\<rparr>
   \<and> fst (snd (handler (demoOptions\<lparr>async := True\<rparr>) demoServer
                   (demoEvent ''POST'' [] (Str ''query'')) demoContext))
     = \<lparr>callbackWaitsForEmptyEventLoop = True\<rparr>
   \<and> fst (snd (handler (demoOptions\<lparr>async := False\<rparr>) demoServer
                   (demoEvent ''POST'' [] (Str ''query'')) demoContext))
     = \<lparr>callbackWaitsForEmptyEventLoop = False\<rparr>"
  by code_simp

end
